theory Spec2Isabelle
  imports Main "HOL-Library.AList"
begin

text \<open>
  The tunnel agent: \<open>LocalClient\<close> (one connection to a downstream tool server, with
  transport fallback, tool discovery and reconnection), \<open>AgentTunnel\<close> (the messages to
  the control plane) and \<open>McpCentralAgent\<close> (the map of clients, kept in step with the
  server's events, and the routing of tool calls).

  The code is asynchronous on one thread. Each function below is one turn of the event
  loop: what a method does up to its first \<open>await\<close>, or what a suspended method does when
  the awaited call settles. What the SDK answers is an argument of the turn.
\<close>

section \<open>Data model\<close>

text \<open>
  Values that the agent only passes through (tool arguments, tool results, input schemas)
  are JSON values. No function below looks inside one.
\<close>

datatype json =
    JNull
  | JBool bool
  | JNumber int
  | JString string
  | JArray "json list"
  | JObject "(string \<times> json) list"

text \<open>
  \<open>EndpointConfig.transport\<close> is typed \<open>"stdio" | "streamable-http" | "sse"\<close>, but the value
  arrives as JSON from the server and \<open>_createTransport\<close> ends with a branch for any other
  string: \<open>Unsupported\<close> carries that string.
\<close>

datatype TransportKind = Stdio | StreamableHttp | Sse | Unsupported string

record EndpointConfig =
  ep_id :: string
  ep_name :: string
  ep_namespace :: string
  ep_transport :: TransportKind
  ep_url :: "string option"
  ep_command :: "string option"
  ep_args :: "string list"
  ep_env :: "(string \<times> string) list"
  ep_headers :: "(string \<times> string) list"
  isEnabled :: bool

datatype LocalClientStatus = Disconnected | Connecting | Connected | Error

text \<open>
  A tool descriptor of the SDK: the three fields the agent reads, and every other field
  the downstream server may have put on it (title, outputSchema, annotations, ...).
\<close>

record Tool =
  name :: string
  description :: "string option"
  inputSchema :: json
  otherFields :: "(string \<times> json) list"

text \<open>
  The transports of the SDK, by constructor arguments. The subprocess transport receives
  the endpoint's \<open>env\<close> merged over the environment of the agent's process; the value
  here records the endpoint's part.
\<close>

datatype Transport =
    StdioClientTransport string "string list" "(string \<times> string) list"
  | StreamableHTTPClientTransport string "(string \<times> string) list"
  | SSEClientTransport string "(string \<times> string) list"

text \<open>An SDK client that has been connected through a transport.\<close>

datatype Client = Client (over: Transport)

text \<open>The invocations of \<open>LocalClientCallbacks\<close>.\<close>

datatype Callback =
    ToolsChanged "Tool list"
  | StatusChanged LocalClientStatus "string option"

text \<open>
  What the SDK and the platform answer during one turn of the event loop. An error is its
  message, which is all the code reads of it.
  \<^item> \<open>newURL_throws u\<close>: the message of the exception of \<open>new URL(u)\<close>, if it throws;
  \<^item> \<open>connect_rejects t\<close>: the message with which \<open>client.connect(t)\<close> rejects, if it does;
  \<^item> \<open>listTools_result\<close>: the rejection of \<open>client.listTools()\<close>, or \<open>response.tools\<close>
    (which may be undefined).
\<close>

record Sdk =
  newURL_throws :: "string \<Rightarrow> string option"
  connect_rejects :: "Transport \<Rightarrow> string option"
  listTools_result :: "string + Tool list option"

text \<open>The calls into the SDK that a function makes, in order.\<close>

datatype SdkCall =
    ClientConnect Transport
  | TransportClose Transport
  | ClientClose
  | ClientCallTool Client string json

section \<open>LocalClient\<close>

text \<open>
  \<open>connect()\<close> is an async function: it runs until its first \<open>await\<close>, and each later
  part runs in a turn of its own, on the object as it is by then. \<open>ConnectTask\<close> is where
  the invocation in flight is suspended, with the local variable \<open>transport\<close> it holds.
  \<open>_connectHttp\<close> touches no field of the object between its own awaits, so it is
  resumed as one step.
\<close>

datatype ConnectTask =
    Idle
  | AwaitConnect Transport
  | AwaitConnectHttp
  | AwaitListTools Transport

text \<open>
  The fields of the class, then the bookkeeping of the model: the suspended \<open>connect()\<close>
  (the guard on \<open>_connecting\<close> allows one at a time), the number of \<open>disconnect()\<close>
  invocations suspended at \<open>await this._client.close()\<close>, and the callbacks invoked so
  far, oldest first. \<open>reconnectTimer\<close> holds the delay of the pending timeout.
\<close>

record LocalClient =
  config :: EndpointConfig
  client :: "Client option"
  status :: LocalClientStatus
  tools :: "Tool list"
  destroyed :: bool
  connecting :: bool
  reconnectAttempt :: nat
  reconnectTimer :: "nat option"
  inflight :: ConnectTask
  closing :: nat
  callbacks :: "Callback list"

definition RECONNECT_DELAYS :: "nat list" where
  "RECONNECT_DELAYS = [1000, 2000, 5000, 10000, 30000]"

definition MAX_RECONNECT_DELAY :: nat where
  "MAX_RECONNECT_DELAY = 60000"

definition newLocalClient :: "EndpointConfig \<Rightarrow> LocalClient" where
  "newLocalClient cfg =
     \<lparr>config = cfg, client = None, status = Disconnected, tools = [], destroyed = False,
      connecting = False, reconnectAttempt = 0, reconnectTimer = None,
      inflight = Idle, closing = 0, callbacks = []\<rparr>"

definition endpointId :: "LocalClient \<Rightarrow> string" where
  "endpointId c = ep_id (config c)"

definition setStatus :: "LocalClientStatus \<Rightarrow> string option \<Rightarrow> LocalClient \<Rightarrow> LocalClient" where
  "setStatus st err c = c\<lparr>status := st, callbacks := callbacks c @ [StatusChanged st err]\<rparr>"

text \<open>\<open>xs[i] ?? d\<close>: the element, or \<open>d\<close> where the index is out of range.\<close>

definition nth_or :: "'a \<Rightarrow> 'a list \<Rightarrow> nat \<Rightarrow> 'a" where
  "nth_or d xs i = (if i < length xs then xs ! i else d)"

definition scheduleReconnect :: "LocalClient \<Rightarrow> LocalClient" where
  "scheduleReconnect c =
     (if destroyed c then c
      else
        let delay = nth_or MAX_RECONNECT_DELAY RECONNECT_DELAYS
                      (min (reconnectAttempt c) (length RECONNECT_DELAYS - 1))
        in c\<lparr>reconnectAttempt := reconnectAttempt c + 1, reconnectTimer := Some delay\<rparr>)"

text \<open>
  \<open>!s\<close> for \<open>s: string | null\<close>: null and the empty string are falsy. Past such a
  guard the string is \<open>the s\<close>.
\<close>

definition falsy :: "string option \<Rightarrow> bool" where
  "falsy s = (case s of None \<Rightarrow> True | Some v \<Rightarrow> v = [])"

definition createTransport :: "EndpointConfig \<Rightarrow> Sdk \<Rightarrow> string + Transport" where
  "createTransport cfg sdk =
     (case ep_transport cfg of
        Stdio \<Rightarrow>
          (if falsy (ep_command cfg)
           then Inl (''stdio endpoint '' @ ep_id cfg @ '' has no command'')
           else Inr (StdioClientTransport (the (ep_command cfg)) (ep_args cfg) (ep_env cfg)))
      | StreamableHttp \<Rightarrow>
          (if falsy (ep_url cfg)
           then Inl (''streamable-http endpoint '' @ ep_id cfg @ '' has no URL'')
           else (case newURL_throws sdk (the (ep_url cfg)) of
                   Some m \<Rightarrow> Inl m
                 | None \<Rightarrow> Inr (StreamableHTTPClientTransport (the (ep_url cfg)) (ep_headers cfg))))
      | Sse \<Rightarrow>
          (if falsy (ep_url cfg)
           then Inl (''sse endpoint '' @ ep_id cfg @ '' has no URL'')
           else (case newURL_throws sdk (the (ep_url cfg)) of
                   Some m \<Rightarrow> Inl m
                 | None \<Rightarrow> Inr (SSEClientTransport (the (ep_url cfg)) (ep_headers cfg))))
      | Unsupported t \<Rightarrow>
          Inl (''Unsupported transport '' @ [CHR 0x27] @ t @ [CHR 0x27] @
               '' for endpoint '' @ ep_id cfg))"

text \<open>
  \<open>_connectHttp\<close>: the SDK calls it makes, and the transport it returns or the message of
  the error it throws.
\<close>

definition connectHttp :: "EndpointConfig \<Rightarrow> Sdk \<Rightarrow> SdkCall list \<times> (string + Transport)" where
  "connectHttp cfg sdk =
     (if falsy (ep_url cfg)
      then ([], Inl (''streamable-http endpoint '' @ ep_id cfg @ '' has no URL''))
      else
        (case newURL_throws sdk (the (ep_url cfg)) of
           Some m \<Rightarrow> ([], Inl m)
         | None \<Rightarrow>
             let streamableTransport = StreamableHTTPClientTransport (the (ep_url cfg)) (ep_headers cfg)
             in (case connect_rejects sdk streamableTransport of
                   None \<Rightarrow> ([ClientConnect streamableTransport], Inr streamableTransport)
                 | Some _ \<Rightarrow>
                     let sseTransport = SSEClientTransport (the (ep_url cfg)) (ep_headers cfg)
                     in (case connect_rejects sdk sseTransport of
                           None \<Rightarrow>
                             ([ClientConnect streamableTransport,
                               TransportClose streamableTransport, ClientClose,
                               ClientConnect sseTransport],
                              Inr sseTransport)
                         | Some err \<Rightarrow>
                             ([ClientConnect streamableTransport,
                               TransportClose streamableTransport, ClientClose,
                               ClientConnect sseTransport,
                               TransportClose sseTransport, ClientClose],
                              Inl err)))))"

text \<open>The \<open>catch\<close> and \<open>finally\<close> blocks of \<open>connect()\<close>.\<close>

definition connect_failed :: "string \<Rightarrow> LocalClient \<Rightarrow> LocalClient" where
  "connect_failed message c =
     (let c1 = setStatus Error (Some message) c;
          c2 = (if \<not> destroyed c1 then scheduleReconnect c1 else c1)
      in c2\<lparr>connecting := False, inflight := Idle\<rparr>)"

text \<open>
  \<open>connect()\<close> up to its first \<open>await\<close>. \<open>_createTransport\<close> throws before any await, so
  its failure is handled in the same turn.
\<close>

definition connect :: "Sdk \<Rightarrow> LocalClient \<Rightarrow> LocalClient" where
  "connect sdk c =
     (if destroyed c \<or> connecting c then c
      else
        let c1 = setStatus Connecting None (c\<lparr>connecting := True\<rparr>)
        in if ep_transport (config c1) = StreamableHttp
           then c1\<lparr>inflight := AwaitConnectHttp\<rparr>
           else (case createTransport (config c1) sdk of
                   Inl message \<Rightarrow> connect_failed message c1
                 | Inr transport \<Rightarrow> c1\<lparr>inflight := AwaitConnect transport\<rparr>))"

text \<open>After the transport is established: the two assignments before \<open>listTools()\<close>.\<close>

definition transport_ready :: "Transport \<Rightarrow> LocalClient \<Rightarrow> LocalClient" where
  "transport_ready transport c =
     c\<lparr>client := Some (Client transport), reconnectAttempt := 0,
       inflight := AwaitListTools transport\<rparr>"

text \<open>
  After \<open>listTools()\<close> resolves: the tool list, the status, the callback; the two hooks
  are put on the transport; \<open>finally\<close> clears the flag.
\<close>

definition tools_listed :: "Tool list option \<Rightarrow> LocalClient \<Rightarrow> LocalClient" where
  "tools_listed response_tools c =
     (let c1 = c\<lparr>tools := (case response_tools of None \<Rightarrow> [] | Some ts \<Rightarrow> ts)\<rparr>;
          c2 = setStatus Connected None c1;
          c3 = c2\<lparr>callbacks := callbacks c2 @ [ToolsChanged (tools c2)]\<rparr>
      in c3\<lparr>connecting := False, inflight := Idle\<rparr>)"

text \<open>One resumption of the \<open>connect()\<close> in flight, with the SDK's answer to what it awaits.\<close>

definition settle :: "Sdk \<Rightarrow> LocalClient \<Rightarrow> LocalClient" where
  "settle sdk c =
     (case inflight c of
        Idle \<Rightarrow> c
      | AwaitConnect transport \<Rightarrow>
          (case connect_rejects sdk transport of
             Some message \<Rightarrow> connect_failed message c
           | None \<Rightarrow> transport_ready transport c)
      | AwaitConnectHttp \<Rightarrow>
          (case snd (connectHttp (config c) sdk) of
             Inl message \<Rightarrow> connect_failed message c
           | Inr transport \<Rightarrow> transport_ready transport c)
      | AwaitListTools transport \<Rightarrow>
          (case listTools_result sdk of
             Inl message \<Rightarrow> connect_failed message c
           | Inr response_tools \<Rightarrow> tools_listed response_tools c))"

text \<open>
  The hooks \<open>_onError\<close> and \<open>_onClose\<close>, as the transport fires them; the argument of
  \<open>onError\<close> is \<open>err?.message\<close>.
\<close>

definition onError :: "string option \<Rightarrow> LocalClient \<Rightarrow> LocalClient" where
  "onError err_message c =
     (if \<not> destroyed c \<and> status c = Connected
      then scheduleReconnect
             (setStatus Error
                (Some (case err_message of None \<Rightarrow> ''Transport error'' | Some m \<Rightarrow> m))
                (c\<lparr>tools := []\<rparr>))
      else c)"

definition onClose :: "LocalClient \<Rightarrow> LocalClient" where
  "onClose c =
     (if \<not> destroyed c \<and> status c = Connected
      then scheduleReconnect
             (setStatus Error (Some ''Transport closed unexpectedly'') (c\<lparr>tools := []\<rparr>))
      else c)"

text \<open>The callback of the timeout set by \<open>_scheduleReconnect\<close>, up to the first await.\<close>

definition reconnectTimerFired :: "Sdk \<Rightarrow> LocalClient \<Rightarrow> LocalClient" where
  "reconnectTimerFired sdk c = connect sdk (c\<lparr>reconnectTimer := None\<rparr>)"

text \<open>
  \<open>callTool\<close>: the SDK calls it issues, and its result or the message of what it throws.
  \<open>answer\<close> is how the SDK settles the call, when one is issued.
\<close>

definition callTool ::
  "LocalClient \<Rightarrow> string \<Rightarrow> json \<Rightarrow> string + json \<Rightarrow> SdkCall list \<times> (string + json)" where
  "callTool c toolName args answer =
     (case client c of
        None \<Rightarrow> ([], Inl (''LocalClient for endpoint '' @ endpointId c @ '' is not connected''))
      | Some cl \<Rightarrow> ([ClientCallTool cl toolName args], answer))"

text \<open>
  \<open>disconnect()\<close> up to its await (none when there is no client), and its resumption
  after \<open>close()\<close> has settled either way.
\<close>

definition disconnect :: "LocalClient \<Rightarrow> LocalClient" where
  "disconnect c =
     (let c1 = c\<lparr>destroyed := True\<rparr>;
          c2 = (if reconnectTimer c1 \<noteq> None then c1\<lparr>reconnectTimer := None\<rparr> else c1)
      in if client c2 \<noteq> None then c2\<lparr>closing := closing c2 + 1\<rparr>
         else setStatus Disconnected None c2)"

definition closeSettled :: "LocalClient \<Rightarrow> LocalClient" where
  "closeSettled c =
     (if closing c = 0 then c
      else setStatus Disconnected None (c\<lparr>closing := closing c - 1, client := None\<rparr>))"

text \<open>\<open>await client.disconnect()\<close> with nothing else running in between.\<close>

definition disconnect_awaited :: "LocalClient \<Rightarrow> LocalClient" where
  "disconnect_awaited c =
     (if client c \<noteq> None then closeSettled (disconnect c) else disconnect c)"

text \<open>\<open>await client.connect()\<close> with nothing else running in between.\<close>

definition connect_awaited :: "Sdk \<Rightarrow> LocalClient \<Rightarrow> LocalClient" where
  "connect_awaited sdk c = settle sdk (settle sdk (connect sdk c))"

section \<open>AgentTunnel\<close>

text \<open>What \<open>announceTools\<close> puts on the wire for one tool.\<close>

record AnnouncedTool =
  announced_name :: string
  announced_description :: "string option"
  announced_inputSchema :: json

text \<open>
  The agent-to-server messages: \<open>toolsAnnounce\<close>, \<open>toolResult\<close> with a result,
  \<open>toolResult\<close> with an error, \<open>statusUpdate\<close>.
\<close>

datatype Message =
    ToolsAnnounce string "AnnouncedTool list"
  | ToolResult string json
  | ToolError string string
  | StatusUpdate string LocalClientStatus "string option"

text \<open>
  \<open>socket\<close> says that \<open>_socket\<close> is not null; \<open>sent\<close> is what has been emitted on it,
  oldest first.
\<close>

record AgentTunnel =
  socket :: bool
  sent :: "Message list"

text \<open>\<open>this._socket?.emit(...)\<close>\<close>

definition emit :: "Message \<Rightarrow> AgentTunnel \<Rightarrow> AgentTunnel" where
  "emit m t = (if socket t then t\<lparr>sent := sent t @ [m]\<rparr> else t)"

definition tunnel_connect :: "AgentTunnel \<Rightarrow> AgentTunnel" where
  "tunnel_connect t = t\<lparr>socket := True\<rparr>"

definition tunnel_disconnect :: "AgentTunnel \<Rightarrow> AgentTunnel" where
  "tunnel_disconnect t = t\<lparr>socket := False\<rparr>"

definition trim :: "Tool \<Rightarrow> AnnouncedTool" where
  "trim t = \<lparr>announced_name = name t, announced_description = description t,
             announced_inputSchema = inputSchema t\<rparr>"

definition announceTools :: "string \<Rightarrow> Tool list \<Rightarrow> AgentTunnel \<Rightarrow> AgentTunnel" where
  "announceTools endpoint_id ts t = emit (ToolsAnnounce endpoint_id (map trim ts)) t"

definition sendToolResult :: "string \<Rightarrow> json \<Rightarrow> AgentTunnel \<Rightarrow> AgentTunnel" where
  "sendToolResult call_id result t = emit (ToolResult call_id result) t"

definition sendToolError :: "string \<Rightarrow> string \<Rightarrow> AgentTunnel \<Rightarrow> AgentTunnel" where
  "sendToolError call_id err t = emit (ToolError call_id err) t"

definition sendStatusUpdate ::
  "string \<Rightarrow> LocalClientStatus \<Rightarrow> string option \<Rightarrow> AgentTunnel \<Rightarrow> AgentTunnel" where
  "sendStatusUpdate endpoint_id st err t = emit (StatusUpdate endpoint_id st err) t"

section \<open>McpCentralAgent\<close>

text \<open>
  \<open>_clients\<close> is a JavaScript \<open>Map\<close>: keys in insertion order, one entry per key.
  \<open>detached\<close> are the clients that were taken out of the map: nothing refers to them
  any more, but what they have in flight (a \<open>close()\<close> or a \<open>connect()\<close> awaited) still
  resumes and calls their callbacks.
\<close>

record McpCentralAgent =
  clients :: "(string \<times> LocalClient) list"
  tunnel :: AgentTunnel
  detached :: "LocalClient list"

definition newAgent :: McpCentralAgent where
  "newAgent = \<lparr>clients = [], tunnel = \<lparr>socket = False, sent = []\<rparr>, detached = []\<rparr>"

definition start :: "McpCentralAgent \<Rightarrow> McpCentralAgent" where
  "start a = a\<lparr>tunnel := tunnel_connect (tunnel a)\<rparr>"

text \<open>
  The two callbacks that \<open>_addEndpoint\<close> gives every client it creates; \<open>endpoint.id\<close> is
  the id of the client's own config.
\<close>

definition forward :: "string \<Rightarrow> Callback \<Rightarrow> AgentTunnel \<Rightarrow> AgentTunnel" where
  "forward endpoint_id cb t =
     (case cb of
        ToolsChanged ts \<Rightarrow> announceTools endpoint_id ts t
      | StatusChanged st err \<Rightarrow> sendStatusUpdate endpoint_id st err t)"

text \<open>
  The callbacks a client has invoked during a turn (it was \<open>c\<close> before and is \<open>c'\<close>
  after) reach the tunnel, in order.
\<close>

definition relay :: "LocalClient \<Rightarrow> LocalClient \<Rightarrow> AgentTunnel \<Rightarrow> AgentTunnel" where
  "relay c c' t =
     fold (forward (ep_id (config c))) (drop (length (callbacks c)) (callbacks c')) t"

text \<open>\<open>client.disconnect().catch(() => {}); this._clients.delete(id)\<close>\<close>

definition disconnect_and_delete ::
  "string \<Rightarrow> LocalClient \<Rightarrow> McpCentralAgent \<Rightarrow> McpCentralAgent" where
  "disconnect_and_delete endpoint_id c a =
     (let c' = disconnect c
      in a\<lparr>clients := AList.delete endpoint_id (clients a),
           tunnel := relay c c' (tunnel a),
           detached := detached a @ [c']\<rparr>)"

definition removeEndpoint :: "string \<Rightarrow> McpCentralAgent \<Rightarrow> McpCentralAgent" where
  "removeEndpoint endpoint_id a =
     (case map_of (clients a) endpoint_id of
        Some c \<Rightarrow> disconnect_and_delete endpoint_id c a
      | None \<Rightarrow> a)"

definition addEndpoint :: "Sdk \<Rightarrow> EndpointConfig \<Rightarrow> McpCentralAgent \<Rightarrow> McpCentralAgent" where
  "addEndpoint sdk endpoint a =
     (if \<not> isEnabled endpoint then a
      else
        let a1 = (case map_of (clients a) (ep_id endpoint) of
                    Some existing \<Rightarrow> disconnect_and_delete (ep_id endpoint) existing a
                  | None \<Rightarrow> a);
            c = newLocalClient endpoint;
            c' = connect sdk c
        in a1\<lparr>clients := AList.update (ep_id endpoint) c' (clients a1),
              tunnel := relay c c' (tunnel a1)\<rparr>)"

definition syncEndpoints :: "Sdk \<Rightarrow> EndpointConfig list \<Rightarrow> McpCentralAgent \<Rightarrow> McpCentralAgent" where
  "syncEndpoints sdk endpoints a =
     (let incoming = set (map ep_id endpoints);
          a1 = fold (\<lambda>k b. if k \<notin> incoming then removeEndpoint k b else b)
                 (map fst (clients a)) a
      in fold (\<lambda>ep b.
                 if isEnabled ep
                 then (if map_of (clients b) (ep_id ep) \<noteq> None then b
                       else addEndpoint sdk ep b)
                 else b)
           endpoints a1)"

definition toggleEndpoint :: "string \<Rightarrow> bool \<Rightarrow> McpCentralAgent \<Rightarrow> McpCentralAgent" where
  "toggleEndpoint endpoint_id enabled a =
     (let found = map_of (clients a) endpoint_id
      in if \<not> enabled
         then (case found of
                 Some c \<Rightarrow>
                   (let a1 = disconnect_and_delete endpoint_id c a
                    in a1\<lparr>tunnel := sendStatusUpdate endpoint_id Disconnected None (tunnel a1)\<rparr>)
               | None \<Rightarrow> a)
         else (case found of
                 None \<Rightarrow> a\<lparr>tunnel := sendStatusUpdate endpoint_id Connecting None (tunnel a)\<rparr>
               | Some c \<Rightarrow> a))"

definition updateEndpoint :: "Sdk \<Rightarrow> EndpointConfig \<Rightarrow> McpCentralAgent \<Rightarrow> McpCentralAgent" where
  "updateEndpoint sdk endpoint a =
     (let a1 = removeEndpoint (ep_id endpoint) a
      in if isEnabled endpoint then addEndpoint sdk endpoint a1 else a1)"

definition refreshEndpoint :: "Sdk \<Rightarrow> string \<Rightarrow> McpCentralAgent \<Rightarrow> McpCentralAgent" where
  "refreshEndpoint sdk endpoint_id a =
     (case map_of (clients a) endpoint_id of
        Some c \<Rightarrow> addEndpoint sdk (config c) (disconnect_and_delete endpoint_id c a)
      | None \<Rightarrow> a)"

text \<open>
  \<open>stop()\<close>, with nothing else running between its awaits: every client is disconnected
  to the end and deleted, then the tunnel is disconnected.
\<close>

definition stop :: "McpCentralAgent \<Rightarrow> McpCentralAgent" where
  "stop a =
     (let a1 = fold (\<lambda>(k, c) b.
                       let c' = disconnect_awaited c
                       in b\<lparr>clients := AList.delete k (clients b),
                            tunnel := relay c c' (tunnel b),
                            detached := detached b @ [c']\<rparr>)
                 (clients a) a
      in a1\<lparr>tunnel := tunnel_disconnect (tunnel a1)\<rparr>)"

text \<open>The payload of \<open>agent:tool_call\<close>.\<close>

record ToolCallPayload =
  tc_callId :: string
  tc_endpointId :: string
  tc_toolName :: string
  tc_args :: json

text \<open>A status inside a template string.\<close>

definition status_text :: "LocalClientStatus \<Rightarrow> string" where
  "status_text st =
     (case st of
        Disconnected \<Rightarrow> ''disconnected''
      | Connecting \<Rightarrow> ''connecting''
      | Connected \<Rightarrow> ''connected''
      | Error \<Rightarrow> ''error'')"

text \<open>
  \<open>_handleToolCall\<close>, with nothing else running while the downstream call is awaited:
  the SDK calls issued, and the agent afterwards. \<open>answer\<close> is how the SDK settles the
  call, when one is issued.
\<close>

definition handleToolCall ::
  "ToolCallPayload \<Rightarrow> string + json \<Rightarrow> McpCentralAgent \<Rightarrow> SdkCall list \<times> McpCentralAgent" where
  "handleToolCall payload answer a =
     (case map_of (clients a) (tc_endpointId payload) of
        None \<Rightarrow>
          ([], a\<lparr>tunnel := sendToolError (tc_callId payload)
                              (''No local client for endpoint '' @ tc_endpointId payload)
                              (tunnel a)\<rparr>)
      | Some c \<Rightarrow>
          (if status c \<noteq> Connected
           then ([], a\<lparr>tunnel := sendToolError (tc_callId payload)
                                    (''Endpoint '' @ tc_endpointId payload @
                                     '' is not connected (status: '' @ status_text (status c) @ '')'')
                                    (tunnel a)\<rparr>)
           else (case callTool c (tc_toolName payload) (tc_args payload) answer of
                   (calls, Inr result) \<Rightarrow>
                     (calls, a\<lparr>tunnel := sendToolResult (tc_callId payload) result (tunnel a)\<rparr>)
                 | (calls, Inl message) \<Rightarrow>
                     (calls, a\<lparr>tunnel := sendToolError (tc_callId payload) message (tunnel a)\<rparr>))))"

text \<open>The server-to-agent events that change the endpoint set, and their handlers.\<close>

datatype Event =
    Endpoints "EndpointConfig list"
  | EndpointAdd EndpointConfig
  | EndpointRemove string
  | EndpointToggle string bool
  | EndpointUpdate EndpointConfig
  | EndpointRefresh string

definition handle :: "Sdk \<Rightarrow> Event \<Rightarrow> McpCentralAgent \<Rightarrow> McpCentralAgent" where
  "handle sdk ev a =
     (case ev of
        Endpoints endpoints \<Rightarrow> syncEndpoints sdk endpoints a
      | EndpointAdd endpoint \<Rightarrow> addEndpoint sdk endpoint a
      | EndpointRemove endpoint_id \<Rightarrow> removeEndpoint endpoint_id a
      | EndpointToggle endpoint_id enabled \<Rightarrow> toggleEndpoint endpoint_id enabled a
      | EndpointUpdate endpoint \<Rightarrow> updateEndpoint sdk endpoint a
      | EndpointRefresh endpoint_id \<Rightarrow> refreshEndpoint sdk endpoint_id a)"

text \<open>The events of a list handled in order, one turn each.\<close>

definition handle_all :: "Sdk \<Rightarrow> Event list \<Rightarrow> McpCentralAgent \<Rightarrow> McpCentralAgent" where
  "handle_all sdk evs a = fold (handle sdk) evs a"

definition tracked_ids :: "McpCentralAgent \<Rightarrow> string list" where
  "tracked_ids a = map fst (clients a)"

text \<open>
  A turn of the event loop that runs on one client (a resumption, a timer, a hook):
  on the tracked client of an endpoint, or on the \<open>k\<close>-th detached one.
\<close>

definition trackedTurn ::
  "string \<Rightarrow> (LocalClient \<Rightarrow> LocalClient) \<Rightarrow> McpCentralAgent \<Rightarrow> McpCentralAgent" where
  "trackedTurn endpoint_id f a =
     (case map_of (clients a) endpoint_id of
        None \<Rightarrow> a
      | Some c \<Rightarrow>
          a\<lparr>clients := AList.update endpoint_id (f c) (clients a),
            tunnel := relay c (f c) (tunnel a)\<rparr>)"

definition detachedTurn ::
  "nat \<Rightarrow> (LocalClient \<Rightarrow> LocalClient) \<Rightarrow> McpCentralAgent \<Rightarrow> McpCentralAgent" where
  "detachedTurn k f a =
     (if k < length (detached a)
      then a\<lparr>detached := (detached a)[k := f (detached a ! k)],
             tunnel := relay (detached a ! k) (f (detached a ! k)) (tunnel a)\<rparr>
      else a)"

section \<open>The tracked ids as the specification states them\<close>

text \<open>
  The specification's testable property: the tracked ids are those present and enabled in
  the most recent full replace, plus those of later adds, minus those removed or disabled
  since. An update replaces the descriptor of its id; a refresh and an enable toggle carry
  no descriptor.
\<close>

fun expected_step :: "Event \<Rightarrow> string set \<Rightarrow> string set" where
  "expected_step (Endpoints endpoints) ids = set (map ep_id (filter isEnabled endpoints))"
| "expected_step (EndpointAdd endpoint) ids =
     (if isEnabled endpoint then insert (ep_id endpoint) ids else ids)"
| "expected_step (EndpointRemove endpoint_id) ids = ids - {endpoint_id}"
| "expected_step (EndpointToggle endpoint_id enabled) ids =
     (if enabled then ids else ids - {endpoint_id})"
| "expected_step (EndpointUpdate endpoint) ids =
     (if isEnabled endpoint then insert (ep_id endpoint) ids else ids - {ep_id endpoint})"
| "expected_step (EndpointRefresh endpoint_id) ids = ids"

definition expected_ids :: "Event list \<Rightarrow> string set" where
  "expected_ids evs = fold expected_step evs {}"

text \<open>
  What the handlers do to the set of tracked ids. Only the full replace differs from the
  specification's property: a tracked id that is in the incoming list stays, whether its
  incoming descriptor is enabled or not.
\<close>

fun tracked_step :: "Event \<Rightarrow> string set \<Rightarrow> string set" where
  "tracked_step (Endpoints endpoints) ids =
     (ids \<inter> set (map ep_id endpoints)) \<union> set (map ep_id (filter isEnabled endpoints))"
| "tracked_step ev ids = expected_step ev ids"

text \<open>
  The map holds every client under the id of its own descriptor, the descriptor is
  enabled, and no id is held twice.
\<close>

definition keys_ok :: "McpCentralAgent \<Rightarrow> bool" where
  "keys_ok a =
     (distinct (map fst (clients a)) \<and>
      list_all (\<lambda>(k, c). ep_id (config c) = k \<and> isEnabled (config c)) (clients a))"

text \<open>Every descriptor of every full replace in the list is enabled.\<close>

definition replaces_enabled_only :: "Event list \<Rightarrow> bool" where
  "replaces_enabled_only evs =
     list_all (\<lambda>ev. case ev of Endpoints endpoints \<Rightarrow> list_all isEnabled endpoints | _ \<Rightarrow> True) evs"

section \<open>Runs of connect\<close>

text \<open>The two statements of \<open>connect()\<close> before its \<open>try\<close>.\<close>

definition began :: "LocalClient \<Rightarrow> LocalClient" where
  "began c = setStatus Connecting None (c\<lparr>connecting := True\<rparr>)"

text \<open>
  What the transport part of \<open>connect()\<close> comes to, for the SDK's answers: the transport
  established, or the message of the error thrown.
\<close>

definition transport_outcome :: "EndpointConfig \<Rightarrow> Sdk \<Rightarrow> string + Transport" where
  "transport_outcome cfg sdk =
     (if ep_transport cfg = StreamableHttp then snd (connectHttp cfg sdk)
      else (case createTransport cfg sdk of
              Inl message \<Rightarrow> Inl message
            | Inr transport \<Rightarrow>
                (case connect_rejects sdk transport of
                   Some message \<Rightarrow> Inl message
                 | None \<Rightarrow> Inr transport)))"

definition establishes :: "EndpointConfig \<Rightarrow> Sdk \<Rightarrow> bool" where
  "establishes cfg sdk =
     (case transport_outcome cfg sdk of Inl message \<Rightarrow> False | Inr transport \<Rightarrow> True)"

text \<open>
  Attempts in a row, each started by the reconnect timer and run to its end before the
  next one starts, one record of SDK answers per attempt: the client after each.
\<close>

fun retries :: "Sdk list \<Rightarrow> LocalClient \<Rightarrow> LocalClient list" where
  "retries [] c = []"
| "retries (sdk # rest) c =
     (let c' = settle sdk (settle sdk (reconnectTimerFired sdk c)) in c' # retries rest c')"

section \<open>Example endpoints and SDK answers\<close>

definition sse_endpoint :: EndpointConfig where
  "sse_endpoint =
     \<lparr>ep_id = ''a'', ep_name = ''alpha'', ep_namespace = ''ns'', ep_transport = Sse,
      ep_url = Some ''http://localhost:3001/sse'', ep_command = None, ep_args = [],
      ep_env = [], ep_headers = [], isEnabled = True\<rparr>"

definition http_endpoint :: EndpointConfig where
  "http_endpoint =
     \<lparr>ep_id = ''h'', ep_name = ''eta'', ep_namespace = ''ns'', ep_transport = StreamableHttp,
      ep_url = Some ''http://localhost:3002/mcp'', ep_command = None, ep_args = [],
      ep_env = [], ep_headers = [(''authorization'', ''Bearer k'')], isEnabled = True\<rparr>"

definition echo_tool :: Tool where
  "echo_tool = \<lparr>name = ''echo'', description = Some ''Echo the input'',
                 inputSchema = JObject [(''type'', JString ''object'')],
                 otherFields = [(''title'', JString ''Echo'')]\<rparr>"

definition sdk_up :: Sdk where
  "sdk_up = \<lparr>newURL_throws = (\<lambda>u. None), connect_rejects = (\<lambda>t. None),
             listTools_result = Inr (Some [echo_tool])\<rparr>"

definition sdk_refused :: Sdk where
  "sdk_refused = \<lparr>newURL_throws = (\<lambda>u. None), connect_rejects = (\<lambda>t. Some ''ECONNREFUSED''),
             listTools_result = Inl ''Not connected''\<rparr>"

definition sdk_no_discovery :: Sdk where
  "sdk_no_discovery = \<lparr>newURL_throws = (\<lambda>u. None), connect_rejects = (\<lambda>t. None),
             listTools_result = Inl ''Method not found''\<rparr>"

definition sdk_sse_only :: Sdk where
  "sdk_sse_only = \<lparr>newURL_throws = (\<lambda>u. None),
             connect_rejects = (\<lambda>t. case t of StreamableHTTPClientTransport u h \<Rightarrow> Some ''HTTP 405'' | _ \<Rightarrow> None),
             listTools_result = Inr (Some [echo_tool])\<rparr>"

definition sdk_sse_only_no_discovery :: Sdk where
  "sdk_sse_only_no_discovery = \<lparr>newURL_throws = (\<lambda>u. None),
             connect_rejects = (\<lambda>t. case t of StreamableHTTPClientTransport u h \<Rightarrow> Some ''HTTP 405'' | _ \<Rightarrow> None),
             listTools_result = Inl ''Method not found''\<rparr>"

text \<open>
  An agent that was started and received the endpoint list with the one sse endpoint:
  first with the connect in flight, then with the connect and the tool discovery settled.
\<close>

definition agent_connecting :: McpCentralAgent where
  "agent_connecting = handle sdk_up (Endpoints [sse_endpoint]) (start newAgent)"

definition agent_connected :: McpCentralAgent where
  "agent_connected =
     trackedTurn ''a'' (settle sdk_up) (trackedTurn ''a'' (settle sdk_up) agent_connecting)"

text \<open>
  The same agent with the connect of its client refused, and the connected agent in the
  middle of \<open>stop()\<close>: the client's \<open>disconnect()\<close> has been awaited and its entry is not
  deleted yet.
\<close>

definition agent_failed :: McpCentralAgent where
  "agent_failed = trackedTurn ''a'' (settle sdk_refused) agent_connecting"

definition agent_stopping :: McpCentralAgent where
  "agent_stopping = trackedTurn ''a'' disconnect_awaited agent_connected"

section \<open>Definitions unfolded together\<close>

lemmas client_defs = connect_def settle_def connect_failed_def setStatus_def scheduleReconnect_def
  transport_ready_def tools_listed_def createTransport_def connectHttp_def falsy_def nth_or_def
  RECONNECT_DELAYS_def MAX_RECONNECT_DELAY_def newLocalClient_def disconnect_def closeSettled_def
  disconnect_awaited_def connect_awaited_def onError_def onClose_def reconnectTimerFired_def
  callTool_def endpointId_def

lemmas example_defs = sse_endpoint_def echo_tool_def sdk_up_def sdk_refused_def

section \<open>The reconnect schedule\<close>

lemma delays_sorted: "sorted RECONNECT_DELAYS"
  by (simp add: RECONNECT_DELAYS_def)

lemma delay_mono: "i \<le> j \<Longrightarrow> RECONNECT_DELAYS ! min i 4 \<le> RECONNECT_DELAYS ! min j 4"
  by (rule sorted_nth_mono [OF delays_sorted]) (simp_all add: RECONNECT_DELAYS_def)

lemma delay_le_30s: "RECONNECT_DELAYS ! min n 4 \<le> 30000"
proof -
  have "RECONNECT_DELAYS ! min n 4 \<le> RECONNECT_DELAYS ! 4"
    by (rule sorted_nth_mono [OF delays_sorted]) (simp_all add: RECONNECT_DELAYS_def)
  then show ?thesis by (simp add: RECONNECT_DELAYS_def)
qed

lemma delays_last_index: "length RECONNECT_DELAYS - Suc 0 = 4"
  by (simp add: RECONNECT_DELAYS_def)

lemma delays_index_in_range: "min n 4 < length RECONNECT_DELAYS"
  by (simp add: RECONNECT_DELAYS_def)

text \<open>The index is always in range, so the fallback \<open>MAX_RECONNECT_DELAY\<close> is never taken.\<close>

lemma scheduleReconnect_delay:
  "\<not> destroyed c \<Longrightarrow>
     scheduleReconnect c =
       c\<lparr>reconnectAttempt := reconnectAttempt c + 1,
         reconnectTimer := Some (RECONNECT_DELAYS ! min (reconnectAttempt c) 4)\<rparr>"
  by (simp add: scheduleReconnect_def nth_or_def delays_last_index delays_index_in_range)

lemma scheduleReconnect_destroyed: "destroyed c \<Longrightarrow> scheduleReconnect c = c"
  by (simp add: scheduleReconnect_def)

lemma delays_nondecreasing:
  "sorted (map (\<lambda>k. RECONNECT_DELAYS ! min (n + k) 4) [0..<m])"
  by (simp add: sorted_map sorted_wrt_iff_nth_less delay_mono)

section \<open>The parts of connect\<close>

lemma connect_failed_live:
  "\<not> destroyed c \<Longrightarrow>
     connect_failed m c =
       c\<lparr>status := Error, callbacks := callbacks c @ [StatusChanged Error (Some m)],
         reconnectAttempt := reconnectAttempt c + 1,
         reconnectTimer := Some (RECONNECT_DELAYS ! min (reconnectAttempt c) 4),
         connecting := False, inflight := Idle\<rparr>"
  by (simp add: connect_failed_def setStatus_def scheduleReconnect_delay)

lemma connect_failed_destroyed:
  "destroyed c \<Longrightarrow>
     connect_failed m c =
       c\<lparr>status := Error, callbacks := callbacks c @ [StatusChanged Error (Some m)],
         connecting := False, inflight := Idle\<rparr>"
  by (simp add: connect_failed_def setStatus_def)

lemma connect_failed_inflight [simp]:
  "connect_failed m (c\<lparr>inflight := x\<rparr>) = connect_failed m c"
  by (simp add: connect_failed_def setStatus_def scheduleReconnect_def Let_def)

lemma inflight_connect_failed [simp]: "inflight (connect_failed m c) = Idle"
  by (simp add: connect_failed_def Let_def)

lemma status_connect_failed [simp]: "status (connect_failed m c) = Error"
  by (simp add: connect_failed_def setStatus_def scheduleReconnect_def Let_def)

lemma transport_ready_inflight [simp]:
  "transport_ready t (c\<lparr>inflight := x\<rparr>) = transport_ready t c"
  by (simp add: transport_ready_def)

lemma inflight_transport_ready [simp]: "inflight (transport_ready t c) = AwaitListTools t"
  by (simp add: transport_ready_def)

lemma reconnectAttempt_transport_ready [simp]: "reconnectAttempt (transport_ready t c) = 0"
  by (simp add: transport_ready_def)

lemma reconnectAttempt_tools_listed [simp]:
  "reconnectAttempt (tools_listed r c) = reconnectAttempt c"
  by (simp add: tools_listed_def setStatus_def Let_def)

lemma settle_Idle: "inflight c = Idle \<Longrightarrow> settle sdk c = c"
  by (simp add: settle_def)

lemma config_began [simp]: "config (began c) = config c"
  by (simp add: began_def setStatus_def)

lemma connect_destroyed: "destroyed c \<Longrightarrow> connect sdk c = c"
  by (simp add: connect_def)

lemma connect_idle:
  assumes "\<not> destroyed c" "\<not> connecting c"
  shows "connect sdk c =
           (if ep_transport (config c) = StreamableHttp
            then (began c)\<lparr>inflight := AwaitConnectHttp\<rparr>
            else (case createTransport (config c) sdk of
                    Inl message \<Rightarrow> connect_failed message (began c)
                  | Inr transport \<Rightarrow> (began c)\<lparr>inflight := AwaitConnect transport\<rparr>))"
  using assms by (simp add: connect_def began_def Let_def setStatus_def split: sum.split)

text \<open>A \<open>connect()\<close> on an idle, live client, up to the end of its transport part.\<close>

lemma connect_settle:
  assumes "\<not> destroyed c" "\<not> connecting c"
  shows "settle sdk (connect sdk c) =
           (case transport_outcome (config c) sdk of
              Inl message \<Rightarrow> connect_failed message (began c)
            | Inr transport \<Rightarrow> transport_ready transport (began c))"
proof (cases "ep_transport (config c) = StreamableHttp")
  case True
  then show ?thesis
    by (simp add: connect_idle [OF assms] settle_def transport_outcome_def split: sum.split)
next
  case False
  show ?thesis
  proof (cases "createTransport (config c) sdk")
    case (Inl message)
    then show ?thesis
      using False by (simp add: connect_idle [OF assms] settle_Idle transport_outcome_def)
  next
    case (Inr transport)
    then show ?thesis
      using False
      by (simp add: connect_idle [OF assms] settle_def transport_outcome_def split: option.split)
  qed
qed

text \<open>A \<open>connect()\<close> on an idle, live client, run to its end: the three ways it can go.\<close>

lemma connect_awaited_eq:
  assumes "\<not> destroyed c" "\<not> connecting c"
  shows "connect_awaited sdk c =
           (case transport_outcome (config c) sdk of
              Inl message \<Rightarrow> connect_failed message (began c)
            | Inr transport \<Rightarrow>
                (case listTools_result sdk of
                   Inl message \<Rightarrow> connect_failed message (transport_ready transport (began c))
                 | Inr response_tools \<Rightarrow>
                     tools_listed response_tools (transport_ready transport (began c))))"
proof (cases "transport_outcome (config c) sdk")
  case (Inl message)
  then show ?thesis
    by (simp add: connect_awaited_def connect_settle [OF assms] settle_Idle)
next
  case (Inr transport)
  then show ?thesis
    by (simp add: connect_awaited_def connect_settle [OF assms])
       (simp add: settle_def split: sum.split)
qed

lemma timer_attempt_eq:
  "settle sdk (settle sdk (reconnectTimerFired sdk c)) =
     connect_awaited sdk (c\<lparr>reconnectTimer := None\<rparr>)"
  by (simp add: reconnectTimerFired_def connect_awaited_def)

text \<open>An attempt that fails before a transport is established.\<close>

lemma failed_attempt:
  assumes "\<not> destroyed c" "\<not> connecting c" "\<not> establishes (config c) sdk"
  shows "reconnectTimer (settle sdk (settle sdk (reconnectTimerFired sdk c))) =
           Some (RECONNECT_DELAYS ! min (reconnectAttempt c) 4) \<and>
         reconnectAttempt (settle sdk (settle sdk (reconnectTimerFired sdk c))) =
           reconnectAttempt c + 1 \<and>
         status (settle sdk (settle sdk (reconnectTimerFired sdk c))) = Error \<and>
         \<not> destroyed (settle sdk (settle sdk (reconnectTimerFired sdk c))) \<and>
         \<not> connecting (settle sdk (settle sdk (reconnectTimerFired sdk c))) \<and>
         config (settle sdk (settle sdk (reconnectTimerFired sdk c))) = config c"
proof -
  obtain m where m: "transport_outcome (config c) sdk = Inl m"
    using assms(3) by (auto simp: establishes_def split: sum.splits)
  have live: "\<not> destroyed (began (c\<lparr>reconnectTimer := None\<rparr>))"
    using assms(1) by (simp add: began_def setStatus_def)
  have "settle sdk (settle sdk (reconnectTimerFired sdk c)) =
          connect_failed m (began (c\<lparr>reconnectTimer := None\<rparr>))"
    using assms(1,2) m by (simp add: timer_attempt_eq connect_awaited_eq)
  then show ?thesis
    using assms(1) by (simp add: connect_failed_live [OF live]) (simp add: began_def setStatus_def)
qed

text \<open>An attempt that establishes a transport and then fails at tool discovery.\<close>

lemma discovery_failed_attempt:
  assumes "\<not> destroyed c" "\<not> connecting c" "establishes (config c) sdk"
    and "listTools_result sdk = Inl m"
  shows "reconnectTimer (settle sdk (settle sdk (reconnectTimerFired sdk c))) =
           Some (RECONNECT_DELAYS ! 0) \<and>
         reconnectAttempt (settle sdk (settle sdk (reconnectTimerFired sdk c))) = 1 \<and>
         status (settle sdk (settle sdk (reconnectTimerFired sdk c))) = Error"
proof -
  obtain t where t: "transport_outcome (config c) sdk = Inr t"
    using assms(3) by (auto simp: establishes_def split: sum.splits)
  have live: "\<not> destroyed (transport_ready t (began (c\<lparr>reconnectTimer := None\<rparr>)))"
    using assms(1) by (simp add: transport_ready_def began_def setStatus_def)
  have "settle sdk (settle sdk (reconnectTimerFired sdk c)) =
          connect_failed m (transport_ready t (began (c\<lparr>reconnectTimer := None\<rparr>)))"
    using assms(1,2,4) t by (simp add: timer_attempt_eq connect_awaited_eq)
  then show ?thesis
    by (simp add: connect_failed_live [OF live])
qed

lemma retries_delays:
  assumes "\<not> destroyed c" "\<not> connecting c" "\<forall>sdk\<in>set sdks. \<not> establishes (config c) sdk"
  shows "map reconnectTimer (retries sdks c) =
           map (\<lambda>k. Some (RECONNECT_DELAYS ! min (reconnectAttempt c + k) 4)) [0..<length sdks]"
  using assms
proof (induction sdks arbitrary: c)
  case Nil
  then show ?case by simp
next
  case (Cons sdk rest)
  let ?c = "settle sdk (settle sdk (reconnectTimerFired sdk c))"
  have step: "reconnectTimer ?c = Some (RECONNECT_DELAYS ! min (reconnectAttempt c) 4)"
    "reconnectAttempt ?c = reconnectAttempt c + 1" "\<not> destroyed ?c" "\<not> connecting ?c"
    "config ?c = config c"
    using failed_attempt [of c sdk] Cons.prems by simp_all
  have "map reconnectTimer (retries rest ?c) =
          map (\<lambda>k. Some (RECONNECT_DELAYS ! min (reconnectAttempt ?c + k) 4)) [0..<length rest]"
    using Cons.IH [of ?c] step Cons.prems by simp
  then show ?case
    using step by (simp add: Let_def upt_rec [of 0] map_Suc_upt [symmetric] del: upt_Suc)
qed

text \<open>A \<open>connect()\<close> that establishes a transport and then fails at tool discovery.\<close>

lemma discovery_failure_restarts:
  assumes "\<not> destroyed c" "\<not> connecting c"
    and "establishes (config c) sdk" "listTools_result sdk = Inl m"
  shows "status (connect_awaited sdk c) = Error \<and>
         reconnectTimer (connect_awaited sdk c) = Some 1000"
proof -
  obtain t where t: "transport_outcome (config c) sdk = Inr t"
    using assms(3) by (auto simp: establishes_def split: sum.splits)
  have live: "\<not> destroyed (transport_ready t (began c))"
    using assms(1) by (simp add: transport_ready_def began_def setStatus_def)
  have "connect_awaited sdk c = connect_failed m (transport_ready t (began c))"
    using assms(4) t by (simp add: connect_awaited_eq [OF assms(1,2)])
  then show ?thesis
    by (simp add: connect_failed_live [OF live] RECONNECT_DELAYS_def)
qed

lemma connected_resets:
  assumes "\<not> destroyed c" "\<not> connecting c" "status (connect_awaited sdk c) = Connected"
  shows "reconnectAttempt (connect_awaited sdk c) = 0"
  using assms(3)
  by (simp add: connect_awaited_eq [OF assms(1,2)] split: sum.splits)

lemma established_resets:
  assumes "\<not> destroyed c" "\<not> connecting c" "establishes (config c) sdk"
  shows "reconnectAttempt (settle sdk (connect sdk c)) = 0"
  using assms(3)
  by (simp add: connect_settle [OF assms(1,2)] establishes_def split: sum.splits)

lemma establishes_refused: "\<not> establishes sse_endpoint sdk_refused"
  by (simp add: establishes_def transport_outcome_def createTransport_def falsy_def example_defs)

lemma establishes_up: "establishes sse_endpoint sdk_up"
  by (simp add: establishes_def transport_outcome_def createTransport_def falsy_def example_defs)

lemma establishes_no_discovery: "establishes sse_endpoint sdk_no_discovery"
  by (simp add: establishes_def transport_outcome_def createTransport_def falsy_def
      sse_endpoint_def sdk_no_discovery_def)

section \<open>The parts of disconnect\<close>

lemma disconnect_eq:
  "disconnect c =
     (if client c \<noteq> None
      then c\<lparr>destroyed := True, reconnectTimer := None, closing := closing c + 1\<rparr>
      else c\<lparr>status := Disconnected, destroyed := True, reconnectTimer := None,
             callbacks := callbacks c @ [StatusChanged Disconnected None]\<rparr>)"
  by (cases c) (simp add: disconnect_def Let_def setStatus_def)

lemma disconnect_awaited_eq:
  "disconnect_awaited c =
     c\<lparr>client := None, status := Disconnected, destroyed := True, reconnectTimer := None,
       callbacks := callbacks c @ [StatusChanged Disconnected None]\<rparr>"
  by (cases c) (simp add: disconnect_awaited_def disconnect_eq closeSettled_def setStatus_def)

lemma disconnect_awaited_twice:
  "disconnect_awaited (disconnect_awaited c) =
     (disconnect_awaited c)
       \<lparr>callbacks := callbacks (disconnect_awaited c) @ [StatusChanged Disconnected None]\<rparr>"
  by (simp add: disconnect_awaited_eq)

section \<open>A destroyed client\<close>

text \<open>
  What holds of a destroyed client: a further \<open>connect()\<close> does nothing
  (\<open>connect_destroyed\<close>), and no turn schedules a reconnect.
\<close>

lemma settle_destroyed:
  assumes "destroyed c"
  shows "reconnectTimer (settle sdk c) = reconnectTimer c \<and> destroyed (settle sdk c)"
proof (cases "inflight c")
  case Idle
  then show ?thesis using assms by (simp add: settle_def)
next
  case (AwaitConnect t)
  then show ?thesis
    using assms
    by (simp add: settle_def connect_failed_destroyed transport_ready_def split: option.split)
next
  case AwaitConnectHttp
  then show ?thesis
    using assms
    by (simp add: settle_def connect_failed_destroyed transport_ready_def split: sum.split)
next
  case (AwaitListTools t)
  then show ?thesis
    using assms
    by (simp add: settle_def connect_failed_destroyed tools_listed_def setStatus_def Let_def
        split: sum.split)
qed

lemma hooks_destroyed: "destroyed c \<Longrightarrow> onError e c = c \<and> onClose c = c"
  by (simp add: onError_def onClose_def)

lemma disconnect_clears_timer: "reconnectTimer (disconnect c) = None \<and> destroyed (disconnect c)"
  by (simp add: disconnect_def Let_def setStatus_def)

lemma closeSettled_destroyed:
  "destroyed c \<Longrightarrow>
     reconnectTimer (closeSettled c) = reconnectTimer c \<and> destroyed (closeSettled c)"
  by (simp add: closeSettled_def setStatus_def)

text \<open>
  C3, evaluated. A \<open>connect()\<close> is in flight on an sse endpoint when \<open>disconnect()\<close> runs:
  the client is destroyed and disconnected. When the awaited \<open>client.connect\<close> then
  rejects, the \<open>catch\<close> block sets the status to error and reports it; when it resolves
  and \<open>listTools()\<close> resolves, the status becomes connected and the client handle is set.
  Either way the status of a destroyed client has left disconnected. No reconnect is
  scheduled.
\<close>

theorem inflight_connect_after_disconnect:
  "destroyed (disconnect (connect sdk_up (newLocalClient sse_endpoint))) \<and>
   status (disconnect (connect sdk_up (newLocalClient sse_endpoint))) = Disconnected \<and>
   status (settle sdk_refused (disconnect (connect sdk_up (newLocalClient sse_endpoint)))) = Error \<and>
   destroyed (settle sdk_refused (disconnect (connect sdk_up (newLocalClient sse_endpoint)))) \<and>
   reconnectTimer (settle sdk_refused (disconnect (connect sdk_up (newLocalClient sse_endpoint))))
     = None \<and>
   callbacks (settle sdk_refused (disconnect (connect sdk_up (newLocalClient sse_endpoint)))) =
     [StatusChanged Connecting None, StatusChanged Disconnected None,
      StatusChanged Error (Some ''ECONNREFUSED'')] \<and>
   status (settle sdk_up (settle sdk_up (disconnect (connect sdk_up (newLocalClient sse_endpoint)))))
     = Connected \<and>
   destroyed (settle sdk_up (settle sdk_up (disconnect (connect sdk_up (newLocalClient sse_endpoint)))))
   \<and>
   client (settle sdk_up (settle sdk_up (disconnect (connect sdk_up (newLocalClient sse_endpoint)))))
     = Some (Client (SSEClientTransport ''http://localhost:3001/sse'' []))"
  by (simp add: client_defs example_defs Let_def)

section \<open>Reentrancy of connect\<close>

text \<open>While a \<open>connect()\<close> is suspended at an await, the flag is set.\<close>

lemma connecting_while_inflight:
  assumes "\<not> destroyed c" "\<not> connecting c"
  shows "(inflight (connect sdk c) \<noteq> Idle \<longrightarrow> connecting (connect sdk c)) \<and>
         (inflight (settle sdk' (connect sdk c)) \<noteq> Idle \<longrightarrow>
            connecting (settle sdk' (connect sdk c)))"
proof -
  have "inflight (connect sdk c) \<noteq> Idle \<longrightarrow> connecting (connect sdk c)"
    by (simp add: connect_idle [OF assms] began_def setStatus_def split: sum.split)
  moreover have "inflight (settle sdk' (connect sdk c)) \<noteq> Idle \<longrightarrow>
            connecting (settle sdk' (connect sdk c))"
  proof (cases "inflight (connect sdk c)")
    case Idle
    then show ?thesis by (simp add: settle_Idle)
  next
    case (AwaitConnect t)
    then have "connecting (connect sdk c)"
      using calculation by simp
    then show ?thesis
      using AwaitConnect by (simp add: settle_def transport_ready_def split: option.split)
  next
    case AwaitConnectHttp
    then have "connecting (connect sdk c)"
      using calculation by simp
    then show ?thesis
      using AwaitConnectHttp by (simp add: settle_def transport_ready_def split: sum.split)
  next
    case (AwaitListTools t)
    then show ?thesis
      by (simp add: connect_idle [OF assms] split: sum.splits if_splits)
  qed
  ultimately show ?thesis by blast
qed

text \<open>
  C10. While a \<open>connect()\<close> invocation is in progress (the \<open>_connecting\<close> flag is set),
  a further \<open>connect()\<close> returns at once and leaves the object as it is: the status, the
  tool list, the client handle and the reconnect counter are unchanged, and no callback
  is invoked.
\<close>

theorem connect_while_connecting:
  assumes "connecting c"
  shows "connect sdk c = c"
  using assms by (simp add: connect_def)

theorem connect_while_connecting_witness:
  "connecting (connect sdk_up (newLocalClient sse_endpoint)) \<and>
   connect sdk_refused (connect sdk_up (newLocalClient sse_endpoint)) =
     connect sdk_up (newLocalClient sse_endpoint)"
proof -
  have h: "connecting (connect sdk_up (newLocalClient sse_endpoint))"
    by (simp add: client_defs example_defs)
  from connect_while_connecting [OF h, of sdk_refused] h show ?thesis by simp
qed

section \<open>The reconnect delay across failures\<close>

text \<open>
  C4, as the code has it. The schedule is 1s, 2s, 5s, 10s, 30s. Every scheduling takes the
  entry at index \<open>min(reconnectAttempt, 4)\<close>, which is at most 30s, and then increments
  \<open>reconnectAttempt\<close>. Across attempts in a row that all fail before a transport is
  established, the delays are the entries from the counter onwards, so they never
  decrease. \<open>reconnectAttempt\<close> is set to 0 as soon as a transport is established, before
  tool discovery, so it is 0 after every connect that ends connected, and a connect that
  fails at tool discovery schedules the first delay, 1s.
\<close>

theorem reconnect_delay_schedule:
  assumes "\<not> destroyed c" and "\<not> connecting c"
  shows "RECONNECT_DELAYS = [1000, 2000, 5000, 10000, 30000] \<and>
         reconnectTimer (scheduleReconnect c) =
           Some (RECONNECT_DELAYS ! min (reconnectAttempt c) 4) \<and>
         reconnectAttempt (scheduleReconnect c) = reconnectAttempt c + 1 \<and>
         RECONNECT_DELAYS ! min (reconnectAttempt c) 4 \<le> 30000 \<and>
         ((\<forall>sdk\<in>set sdks. \<not> establishes (config c) sdk) \<longrightarrow>
            map reconnectTimer (retries sdks c) =
              map (\<lambda>k. Some (RECONNECT_DELAYS ! min (reconnectAttempt c + k) 4))
                [0..<length sdks] \<and>
            sorted (map (\<lambda>k. RECONNECT_DELAYS ! min (reconnectAttempt c + k) 4)
                      [0..<length sdks])) \<and>
         (establishes (config c) sdk \<longrightarrow> reconnectAttempt (settle sdk (connect sdk c)) = 0) \<and>
         (status (connect_awaited sdk c) = Connected \<longrightarrow>
            reconnectAttempt (connect_awaited sdk c) = 0) \<and>
         (establishes (config c) sdk \<and> listTools_result sdk = Inl m \<longrightarrow>
            status (connect_awaited sdk c) = Error \<and>
            reconnectTimer (connect_awaited sdk c) = Some 1000)"
proof -
  have "RECONNECT_DELAYS = [1000, 2000, 5000, 10000, 30000]"
    by (simp add: RECONNECT_DELAYS_def)
  moreover have "reconnectTimer (scheduleReconnect c) =
      Some (RECONNECT_DELAYS ! min (reconnectAttempt c) 4)"
    and "reconnectAttempt (scheduleReconnect c) = reconnectAttempt c + 1"
    using assms(1) by (simp_all add: scheduleReconnect_delay)
  moreover note delay_le_30s [of "reconnectAttempt c"]
  moreover have "(\<forall>sdk\<in>set sdks. \<not> establishes (config c) sdk) \<longrightarrow>
            map reconnectTimer (retries sdks c) =
              map (\<lambda>k. Some (RECONNECT_DELAYS ! min (reconnectAttempt c + k) 4))
                [0..<length sdks]"
    using retries_delays [OF assms] by blast
  moreover note delays_nondecreasing [of "reconnectAttempt c" "length sdks"]
  moreover have "establishes (config c) sdk \<longrightarrow> reconnectAttempt (settle sdk (connect sdk c)) = 0"
    using established_resets [OF assms] by blast
  moreover have "status (connect_awaited sdk c) = Connected \<longrightarrow>
            reconnectAttempt (connect_awaited sdk c) = 0"
    using connected_resets [OF assms] by blast
  moreover have "establishes (config c) sdk \<and> listTools_result sdk = Inl m \<longrightarrow>
            status (connect_awaited sdk c) = Error \<and>
            reconnectTimer (connect_awaited sdk c) = Some 1000"
    using discovery_failure_restarts [OF assms] by blast
  ultimately show ?thesis by blast
qed

theorem reconnect_delay_schedule_witness:
  "map reconnectTimer
     (retries [sdk_refused, sdk_refused, sdk_refused, sdk_refused, sdk_refused, sdk_refused]
        (newLocalClient sse_endpoint)) =
     [Some 1000, Some 2000, Some 5000, Some 10000, Some 30000, Some 30000] \<and>
   reconnectAttempt (settle sdk_up (connect sdk_up (newLocalClient sse_endpoint))) = 0 \<and>
   status (connect_awaited sdk_up (newLocalClient sse_endpoint)) = Connected \<and>
   reconnectAttempt (connect_awaited sdk_up (newLocalClient sse_endpoint)) = 0 \<and>
   status (connect_awaited sdk_no_discovery (newLocalClient sse_endpoint)) = Error \<and>
   reconnectTimer (connect_awaited sdk_no_discovery (newLocalClient sse_endpoint)) = Some 1000"
proof -
  let ?c = "newLocalClient sse_endpoint"
  let ?sdks = "[sdk_refused, sdk_refused, sdk_refused, sdk_refused, sdk_refused, sdk_refused]"
  have live: "\<not> destroyed ?c" and idle: "\<not> connecting ?c"
    by (simp_all add: newLocalClient_def)
  have cfg: "config ?c = sse_endpoint" and n: "reconnectAttempt ?c = 0"
    by (simp_all add: newLocalClient_def)
  have fails: "\<forall>sdk\<in>set ?sdks. \<not> establishes (config ?c) sdk"
    by (simp add: cfg establishes_refused)
  have up: "establishes (config ?c) sdk_up"
    by (simp add: cfg establishes_up)
  have connected: "status (connect_awaited sdk_up ?c) = Connected"
    by (simp add: client_defs example_defs Let_def)
  have "listTools_result sdk_no_discovery = Inl ''Method not found''"
    by (simp add: sdk_no_discovery_def)
  then have nd: "establishes (config ?c) sdk_no_discovery \<and>
            listTools_result sdk_no_discovery = Inl ''Method not found''"
    by (simp add: cfg establishes_no_discovery)
  have idx: "[0..<6] = [0, 1, 2, 3, 4, 5::nat]"
    by (simp add: upt_rec)
  from reconnect_delay_schedule [OF live idle, of ?sdks sdk_up "''x''"] fails up connected
  have "map reconnectTimer (retries ?sdks ?c) =
          map (\<lambda>k. Some (RECONNECT_DELAYS ! min (reconnectAttempt ?c + k) 4)) [0..<length ?sdks]"
    and "reconnectAttempt (settle sdk_up (connect sdk_up ?c)) = 0"
    and "reconnectAttempt (connect_awaited sdk_up ?c) = 0"
    by blast+
  moreover from reconnect_delay_schedule [OF live idle, of ?sdks sdk_no_discovery
      "''Method not found''"] nd
  have "status (connect_awaited sdk_no_discovery ?c) = Error \<and>
        reconnectTimer (connect_awaited sdk_no_discovery ?c) = Some 1000"
    by blast
  ultimately show ?thesis
    using connected by (simp add: n idx RECONNECT_DELAYS_def)
qed

text \<open>
  C4 as stated fails: three attempts in a row all fail, the third after its transport was
  established (tool discovery rejects), and the delays are 1s, 2s, 1s.
\<close>

theorem delay_restarts_counterexample:
  "map status (retries [sdk_refused, sdk_refused, sdk_no_discovery] (newLocalClient sse_endpoint)) =
     [Error, Error, Error] \<and>
   map reconnectTimer
     (retries [sdk_refused, sdk_refused, sdk_no_discovery] (newLocalClient sse_endpoint)) =
     [Some 1000, Some 2000, Some 1000]"
proof -
  let ?c0 = "newLocalClient sse_endpoint"
  let ?c1 = "settle sdk_refused (settle sdk_refused (reconnectTimerFired sdk_refused ?c0))"
  let ?c2 = "settle sdk_refused (settle sdk_refused (reconnectTimerFired sdk_refused ?c1))"
  let ?c3 = "settle sdk_no_discovery
               (settle sdk_no_discovery (reconnectTimerFired sdk_no_discovery ?c2))"
  have c0: "\<not> destroyed ?c0" "\<not> connecting ?c0" "config ?c0 = sse_endpoint"
    "reconnectAttempt ?c0 = 0"
    by (simp_all add: newLocalClient_def)
  have c1: "reconnectTimer ?c1 = Some (RECONNECT_DELAYS ! min 0 4)" "reconnectAttempt ?c1 = 1"
    "status ?c1 = Error" "\<not> destroyed ?c1" "\<not> connecting ?c1" "config ?c1 = sse_endpoint"
    using failed_attempt [of ?c0 sdk_refused] c0 establishes_refused by simp_all
  have c2: "reconnectTimer ?c2 = Some (RECONNECT_DELAYS ! min 1 4)" "reconnectAttempt ?c2 = 2"
    "status ?c2 = Error" "\<not> destroyed ?c2" "\<not> connecting ?c2" "config ?c2 = sse_endpoint"
    using failed_attempt [of ?c1 sdk_refused] c1 establishes_refused by simp_all
  have c3: "reconnectTimer ?c3 = Some (RECONNECT_DELAYS ! 0)" "status ?c3 = Error"
    using discovery_failed_attempt [of ?c2 sdk_no_discovery "''Method not found''"] c2
      establishes_no_discovery
    by (simp_all add: sdk_no_discovery_def)
  have "retries [sdk_refused, sdk_refused, sdk_no_discovery] ?c0 = [?c1, ?c2, ?c3]"
    by (simp add: Let_def)
  then show ?thesis
    using c1 c2 c3 by (simp add: RECONNECT_DELAYS_def)
qed

section \<open>The fallback of http-stream endpoints\<close>

lemma connectHttp_post_first:
  assumes "ep_url cfg = Some u" "u \<noteq> []" "newURL_throws sdk u = None"
  shows "take 1 (fst (connectHttp cfg sdk)) =
           [ClientConnect (StreamableHTTPClientTransport u (ep_headers cfg))]"
  using assms by (simp add: connectHttp_def falsy_def Let_def split: option.split)

lemma connectHttp_fallback:
  assumes "ep_url cfg = Some u" "u \<noteq> []" "newURL_throws sdk u = None"
    and "connect_rejects sdk (StreamableHTTPClientTransport u (ep_headers cfg)) = Some e1"
  shows "connectHttp cfg sdk =
           (case connect_rejects sdk (SSEClientTransport u (ep_headers cfg)) of
              None \<Rightarrow>
                ([ClientConnect (StreamableHTTPClientTransport u (ep_headers cfg)),
                  TransportClose (StreamableHTTPClientTransport u (ep_headers cfg)), ClientClose,
                  ClientConnect (SSEClientTransport u (ep_headers cfg))],
                 Inr (SSEClientTransport u (ep_headers cfg)))
            | Some e2 \<Rightarrow>
                ([ClientConnect (StreamableHTTPClientTransport u (ep_headers cfg)),
                  TransportClose (StreamableHTTPClientTransport u (ep_headers cfg)), ClientClose,
                  ClientConnect (SSEClientTransport u (ep_headers cfg)),
                  TransportClose (SSEClientTransport u (ep_headers cfg)), ClientClose],
                 Inl e2))"
  using assms by (simp add: connectHttp_def falsy_def Let_def split: option.split)

text \<open>
  C5, as the code has it. For a live, idle client of an http-stream endpoint whose url
  parses: the streaming-POST transport is connected first. If that fails, that transport
  is closed and a server-sent-events transport on the same url and headers is connected.
  If the fallback succeeds, the client handle is the one over the fallback transport, and
  the connection ends connected when the tool discovery that follows succeeds. If the
  fallback fails too, the connect fails with the second error.
\<close>

theorem http_stream_fallback:
  assumes "ep_transport (config c) = StreamableHttp"
    and "ep_url (config c) = Some u" and "u \<noteq> []" and "newURL_throws sdk u = None"
    and "\<not> destroyed c" and "\<not> connecting c"
    and "post = StreamableHTTPClientTransport u (ep_headers (config c))"
    and "sse = SSEClientTransport u (ep_headers (config c))"
  shows "take 1 (fst (connectHttp (config c) sdk)) = [ClientConnect post] \<and>
         (connect_rejects sdk post \<noteq> None \<longrightarrow>
            take 4 (fst (connectHttp (config c) sdk)) =
              [ClientConnect post, TransportClose post, ClientClose, ClientConnect sse] \<and>
            (connect_rejects sdk sse = None \<longrightarrow>
               snd (connectHttp (config c) sdk) = Inr sse \<and>
               client (settle sdk (connect sdk c)) = Some (Client sse) \<and>
               (\<forall>r. listTools_result sdk = Inr r \<longrightarrow>
                  status (connect_awaited sdk c) = Connected \<and>
                  client (connect_awaited sdk c) = Some (Client sse) \<and>
                  tools (connect_awaited sdk c) = (case r of None \<Rightarrow> [] | Some ts \<Rightarrow> ts)) \<and>
               (\<forall>m. listTools_result sdk = Inl m \<longrightarrow>
                  status (connect_awaited sdk c) = Error)) \<and>
            (\<forall>e2. connect_rejects sdk sse = Some e2 \<longrightarrow>
               snd (connectHttp (config c) sdk) = Inl e2 \<and>
               connect_awaited sdk c = connect_failed e2 (began c) \<and>
               status (connect_awaited sdk c) = Error \<and>
               last (callbacks (connect_awaited sdk c)) = StatusChanged Error (Some e2) \<and>
               reconnectTimer (connect_awaited sdk c) \<noteq> None))"
proof -
  note url = assms(2-4)
  note idle = assms(5,6)
  have first: "take 1 (fst (connectHttp (config c) sdk)) = [ClientConnect post]"
    using connectHttp_post_first [OF url] assms(7) by simp
  have outcome: "transport_outcome (config c) sdk = snd (connectHttp (config c) sdk)"
    using assms(1) by (simp add: transport_outcome_def)
  have live: "\<not> destroyed (began c)"
    using idle(1) by (simp add: began_def setStatus_def)
  {
    fix e1 assume e1: "connect_rejects sdk post = Some e1"
    note fb = connectHttp_fallback [OF url e1 [unfolded assms(7)], folded assms(7,8)]
    have "take 4 (fst (connectHttp (config c) sdk)) =
            [ClientConnect post, TransportClose post, ClientClose, ClientConnect sse]"
      by (simp add: fb split: option.split)
    moreover {
      assume ok: "connect_rejects sdk sse = None"
      have r: "snd (connectHttp (config c) sdk) = Inr sse"
        by (simp add: fb ok)
      have "client (settle sdk (connect sdk c)) = Some (Client sse)"
        by (simp add: connect_settle [OF idle] outcome r transport_ready_def)
      moreover have "\<forall>r'. listTools_result sdk = Inr r' \<longrightarrow>
                  status (connect_awaited sdk c) = Connected \<and>
                  client (connect_awaited sdk c) = Some (Client sse) \<and>
                  tools (connect_awaited sdk c) = (case r' of None \<Rightarrow> [] | Some ts \<Rightarrow> ts)"
        by (simp add: connect_awaited_eq [OF idle] outcome r tools_listed_def transport_ready_def
            setStatus_def Let_def)
      moreover have "\<forall>m. listTools_result sdk = Inl m \<longrightarrow>
                  status (connect_awaited sdk c) = Error"
        by (simp add: connect_awaited_eq [OF idle] outcome r)
      ultimately have "snd (connectHttp (config c) sdk) = Inr sse \<and>
               client (settle sdk (connect sdk c)) = Some (Client sse) \<and>
               (\<forall>r. listTools_result sdk = Inr r \<longrightarrow>
                  status (connect_awaited sdk c) = Connected \<and>
                  client (connect_awaited sdk c) = Some (Client sse) \<and>
                  tools (connect_awaited sdk c) = (case r of None \<Rightarrow> [] | Some ts \<Rightarrow> ts)) \<and>
               (\<forall>m. listTools_result sdk = Inl m \<longrightarrow>
                  status (connect_awaited sdk c) = Error)"
        using r by blast
    }
    moreover {
      fix e2 assume bad: "connect_rejects sdk sse = Some e2"
      have r: "snd (connectHttp (config c) sdk) = Inl e2"
        by (simp add: fb bad)
      have eq: "connect_awaited sdk c = connect_failed e2 (began c)"
        by (simp add: connect_awaited_eq [OF idle] outcome r)
      have "snd (connectHttp (config c) sdk) = Inl e2 \<and>
               connect_awaited sdk c = connect_failed e2 (began c) \<and>
               status (connect_awaited sdk c) = Error \<and>
               last (callbacks (connect_awaited sdk c)) = StatusChanged Error (Some e2) \<and>
               reconnectTimer (connect_awaited sdk c) \<noteq> None"
        using r eq by (simp add: connect_failed_live [OF live])
    }
    ultimately have "take 4 (fst (connectHttp (config c) sdk)) =
              [ClientConnect post, TransportClose post, ClientClose, ClientConnect sse] \<and>
            (connect_rejects sdk sse = None \<longrightarrow>
               snd (connectHttp (config c) sdk) = Inr sse \<and>
               client (settle sdk (connect sdk c)) = Some (Client sse) \<and>
               (\<forall>r. listTools_result sdk = Inr r \<longrightarrow>
                  status (connect_awaited sdk c) = Connected \<and>
                  client (connect_awaited sdk c) = Some (Client sse) \<and>
                  tools (connect_awaited sdk c) = (case r of None \<Rightarrow> [] | Some ts \<Rightarrow> ts)) \<and>
               (\<forall>m. listTools_result sdk = Inl m \<longrightarrow>
                  status (connect_awaited sdk c) = Error)) \<and>
            (\<forall>e2. connect_rejects sdk sse = Some e2 \<longrightarrow>
               snd (connectHttp (config c) sdk) = Inl e2 \<and>
               connect_awaited sdk c = connect_failed e2 (began c) \<and>
               status (connect_awaited sdk c) = Error \<and>
               last (callbacks (connect_awaited sdk c)) = StatusChanged Error (Some e2) \<and>
               reconnectTimer (connect_awaited sdk c) \<noteq> None)"
      by blast
  }
  with first show ?thesis by blast
qed

theorem http_stream_fallback_witness:
  "take 4 (fst (connectHttp http_endpoint sdk_sse_only)) =
     [ClientConnect (StreamableHTTPClientTransport ''http://localhost:3002/mcp''
        [(''authorization'', ''Bearer k'')]),
      TransportClose (StreamableHTTPClientTransport ''http://localhost:3002/mcp''
        [(''authorization'', ''Bearer k'')]),
      ClientClose,
      ClientConnect (SSEClientTransport ''http://localhost:3002/mcp''
        [(''authorization'', ''Bearer k'')])] \<and>
   status (connect_awaited sdk_sse_only (newLocalClient http_endpoint)) = Connected \<and>
   client (connect_awaited sdk_sse_only (newLocalClient http_endpoint)) =
     Some (Client (SSEClientTransport ''http://localhost:3002/mcp''
        [(''authorization'', ''Bearer k'')])) \<and>
   status (connect_awaited sdk_refused (newLocalClient http_endpoint)) = Error \<and>
   last (callbacks (connect_awaited sdk_refused (newLocalClient http_endpoint))) =
     StatusChanged Error (Some ''ECONNREFUSED'') \<and>
   status (connect_awaited sdk_sse_only_no_discovery (newLocalClient http_endpoint)) = Error"
proof -
  let ?c = "newLocalClient http_endpoint"
  let ?u = "''http://localhost:3002/mcp''"
  let ?post = "StreamableHTTPClientTransport ?u [(''authorization'', ''Bearer k'')]"
  let ?sse = "SSEClientTransport ?u [(''authorization'', ''Bearer k'')]"
  have cfg: "config ?c = http_endpoint"
    by (simp add: newLocalClient_def)
  have h: "ep_transport (config ?c) = StreamableHttp" "ep_url (config ?c) = Some ?u" "?u \<noteq> []"
    "\<not> destroyed ?c" "\<not> connecting ?c"
    "?post = StreamableHTTPClientTransport ?u (ep_headers (config ?c))"
    "?sse = SSEClientTransport ?u (ep_headers (config ?c))"
    by (simp_all add: newLocalClient_def http_endpoint_def)
  have a: "newURL_throws sdk_sse_only ?u = None" "connect_rejects sdk_sse_only ?post \<noteq> None"
    "connect_rejects sdk_sse_only ?sse = None"
    "listTools_result sdk_sse_only = Inr (Some [echo_tool])"
    by (simp_all add: sdk_sse_only_def)
  have b: "newURL_throws sdk_refused ?u = None" "connect_rejects sdk_refused ?post \<noteq> None"
    "connect_rejects sdk_refused ?sse = Some ''ECONNREFUSED''"
    by (simp_all add: sdk_refused_def)
  have d: "newURL_throws sdk_sse_only_no_discovery ?u = None"
    "connect_rejects sdk_sse_only_no_discovery ?post \<noteq> None"
    "connect_rejects sdk_sse_only_no_discovery ?sse = None"
    "listTools_result sdk_sse_only_no_discovery = Inl ''Method not found''"
    by (simp_all add: sdk_sse_only_no_discovery_def)
  from http_stream_fallback [OF h(1-3) a(1) h(4-7)] a(2-4)
  have "take 4 (fst (connectHttp (config ?c) sdk_sse_only)) =
          [ClientConnect ?post, TransportClose ?post, ClientClose, ClientConnect ?sse]"
    and "status (connect_awaited sdk_sse_only ?c) = Connected"
    and "client (connect_awaited sdk_sse_only ?c) = Some (Client ?sse)"
    by blast+
  moreover from http_stream_fallback [OF h(1-3) b(1) h(4-7)] b(2,3)
  have "status (connect_awaited sdk_refused ?c) = Error"
    and "last (callbacks (connect_awaited sdk_refused ?c)) =
           StatusChanged Error (Some ''ECONNREFUSED'')"
    by blast+
  moreover from http_stream_fallback [OF h(1-3) d(1) h(4-7)] d(2-4)
  have "status (connect_awaited sdk_sse_only_no_discovery ?c) = Error"
    by blast
  ultimately show ?thesis
    by (simp add: cfg)
qed

text \<open>
  C5 as stated fails: the POST attempt fails, the fallback succeeds, tool discovery
  rejects, and the connection ends in the error state.
\<close>

theorem fallback_without_discovery_counterexample:
  "connect_rejects sdk_sse_only_no_discovery
     (StreamableHTTPClientTransport ''http://localhost:3002/mcp''
        [(''authorization'', ''Bearer k'')]) = Some ''HTTP 405'' \<and>
   connect_rejects sdk_sse_only_no_discovery
     (SSEClientTransport ''http://localhost:3002/mcp'' [(''authorization'', ''Bearer k'')]) = None \<and>
   snd (connectHttp http_endpoint sdk_sse_only_no_discovery) =
     Inr (SSEClientTransport ''http://localhost:3002/mcp'' [(''authorization'', ''Bearer k'')]) \<and>
   status (connect_awaited sdk_sse_only_no_discovery (newLocalClient http_endpoint)) = Error \<and>
   last (callbacks (connect_awaited sdk_sse_only_no_discovery (newLocalClient http_endpoint))) =
     StatusChanged Error (Some ''Method not found'')"
  by (simp add: client_defs http_endpoint_def sdk_sse_only_no_discovery_def Let_def)

section \<open>callTool after the transport has closed\<close>

text \<open>
  The guard of \<open>callTool\<close> is on the client handle alone, and the hooks leave the handle
  as it is.
\<close>

lemma callTool_guard:
  "(fst (callTool c toolName args answer) = []) = (client c = None)"
  by (simp add: callTool_def split: option.split)

lemma hooks_keep_client: "client (onClose c) = client c \<and> client (onError e c) = client c"
  by (simp add: onClose_def onError_def setStatus_def scheduleReconnect_def Let_def)

text \<open>
  C6, evaluated. A connected client whose transport closes unexpectedly, or reports an
  error, is in the error state and still holds its client handle: \<open>callTool\<close> issues the
  downstream call and returns what the SDK answers, instead of failing at its own guard.
\<close>

theorem callTool_after_transport_closed:
  "status (connect_awaited sdk_up (newLocalClient sse_endpoint)) = Connected \<and>
   status (onClose (connect_awaited sdk_up (newLocalClient sse_endpoint))) = Error \<and>
   callTool (onClose (connect_awaited sdk_up (newLocalClient sse_endpoint)))
       ''echo'' (JObject []) (Inl ''Not connected'') =
     ([ClientCallTool (Client (SSEClientTransport ''http://localhost:3001/sse'' []))
         ''echo'' (JObject [])],
      Inl ''Not connected'') \<and>
   status (onError (Some ''read ECONNRESET'')
             (connect_awaited sdk_up (newLocalClient sse_endpoint))) = Error \<and>
   callTool (onError (Some ''read ECONNRESET'')
               (connect_awaited sdk_up (newLocalClient sse_endpoint)))
       ''echo'' (JObject []) (Inr (JString ''late'')) =
     ([ClientCallTool (Client (SSEClientTransport ''http://localhost:3001/sse'' []))
         ''echo'' (JObject [])],
      Inr (JString ''late''))"
  by (simp add: client_defs example_defs Let_def)

section \<open>Facts about the tunnel and the agent\<close>

lemmas tunnel_defs = emit_def tunnel_connect_def tunnel_disconnect_def trim_def announceTools_def
  sendToolResult_def sendToolError_def sendStatusUpdate_def

lemmas agent_defs = newAgent_def start_def forward_def relay_def disconnect_and_delete_def
  removeEndpoint_def addEndpoint_def syncEndpoints_def toggleEndpoint_def updateEndpoint_def
  refreshEndpoint_def handle_def handle_all_def tracked_ids_def trackedTurn_def detachedTurn_def

lemma agent_connecting_eq:
  "agent_connecting =
     \<lparr>clients = [(''a'', connect sdk_up (newLocalClient sse_endpoint))],
      tunnel = \<lparr>socket = True, sent = [StatusUpdate ''a'' Connecting None]\<rparr>,
      detached = []\<rparr>"
  by (simp add: agent_connecting_def agent_defs tunnel_defs client_defs example_defs Let_def)

lemma agent_connected_eq:
  "agent_connected =
     \<lparr>clients = [(''a'', connect_awaited sdk_up (newLocalClient sse_endpoint))],
      tunnel = \<lparr>socket = True,
                sent = [StatusUpdate ''a'' Connecting None, StatusUpdate ''a'' Connected None,
                        ToolsAnnounce ''a'' [trim echo_tool]]\<rparr>,
      detached = []\<rparr>"
  by (simp add: agent_connected_def agent_connecting_eq trackedTurn_def relay_def forward_def
      tunnel_defs client_defs example_defs Let_def)

section \<open>The tracked ids after a full replace\<close>

lemma config_connect_failed [simp]: "config (connect_failed m c) = config c"
  by (simp add: connect_failed_def setStatus_def scheduleReconnect_def Let_def)

lemma config_connect [simp]: "config (connect sdk c) = config c"
  by (simp add: connect_def setStatus_def Let_def split: sum.split)

lemma keys_delete: "fst ` set (AList.delete k al) = fst ` set al - {k}"
  by (induction al) auto

lemma keys_update: "fst ` set (AList.update k v al) = insert k (fst ` set al)"
  using dom_update [of k v al] by simp

lemma list_all_delete: "list_all P al \<Longrightarrow> list_all P (AList.delete k al)"
  by (induction al) auto

lemma list_all_update: "list_all P al \<Longrightarrow> P (k, v) \<Longrightarrow> list_all P (AList.update k v al)"
  by (induction al) auto

lemma map_of_keys: "(map_of al k = None) = (k \<notin> fst ` set al)"
  by (simp add: map_of_eq_None_iff)

lemma tracked_iff: "k \<in> set (tracked_ids a) \<longleftrightarrow> map_of (clients a) k \<noteq> None"
  by (simp add: tracked_ids_def map_of_eq_None_iff)

lemma map_of_list_all: "list_all P al \<Longrightarrow> map_of al k = Some v \<Longrightarrow> P (k, v)"
  by (auto simp: list_all_iff dest: map_of_SomeD)

lemma disconnect_and_delete_keys:
  "keys_ok a \<Longrightarrow>
     keys_ok (disconnect_and_delete k c a) \<and>
     set (tracked_ids (disconnect_and_delete k c a)) = set (tracked_ids a) - {k}"
  by (simp add: keys_ok_def disconnect_and_delete_def tracked_ids_def Let_def distinct_delete
      list_all_delete keys_delete)

lemma removeEndpoint_keys:
  "keys_ok a \<Longrightarrow>
     keys_ok (removeEndpoint k a) \<and>
     set (tracked_ids (removeEndpoint k a)) = set (tracked_ids a) - {k}"
proof (cases "map_of (clients a) k")
  case None
  then have "k \<notin> set (tracked_ids a)"
    by (simp add: tracked_ids_def map_of_keys)
  then show "keys_ok a \<Longrightarrow> ?thesis"
    using None by (simp add: removeEndpoint_def)
next
  case (Some c)
  then show "keys_ok a \<Longrightarrow> ?thesis"
    by (simp add: removeEndpoint_def disconnect_and_delete_keys)
qed

lemma addEndpoint_keys:
  assumes "keys_ok a"
  shows "keys_ok (addEndpoint sdk e a) \<and>
         set (tracked_ids (addEndpoint sdk e a)) =
           (if isEnabled e then insert (ep_id e) (set (tracked_ids a)) else set (tracked_ids a))"
proof (cases "isEnabled e")
  case False
  then show ?thesis
    using assms by (simp add: addEndpoint_def)
next
  case True
  define a1 where "a1 = (case map_of (clients a) (ep_id e) of
                    Some existing \<Rightarrow> disconnect_and_delete (ep_id e) existing a
                  | None \<Rightarrow> a)"
  have a1: "keys_ok a1" "insert (ep_id e) (set (tracked_ids a1)) = insert (ep_id e) (set (tracked_ids a))"
    using assms disconnect_and_delete_keys [of a "ep_id e"]
    by (auto simp: a1_def split: option.split)
  have eq: "addEndpoint sdk e a =
              a1\<lparr>clients := AList.update (ep_id e) (connect sdk (newLocalClient e)) (clients a1),
                 tunnel := relay (newLocalClient e) (connect sdk (newLocalClient e)) (tunnel a1)\<rparr>"
    using True by (simp add: addEndpoint_def a1_def Let_def)
  have cfg: "config (connect sdk (newLocalClient e)) = e"
    by (simp add: newLocalClient_def)
  have "list_all (\<lambda>(k, c). ep_id (config c) = k \<and> isEnabled (config c))
          (AList.update (ep_id e) (connect sdk (newLocalClient e)) (clients a1))"
    using a1(1) True by (intro list_all_update) (simp_all add: keys_ok_def newLocalClient_def)
  then show ?thesis
    using a1 True
    by (simp add: eq keys_ok_def tracked_ids_def distinct_update keys_update)
qed

lemma toggleEndpoint_keys:
  assumes "keys_ok a"
  shows "keys_ok (toggleEndpoint k en a) \<and>
         set (tracked_ids (toggleEndpoint k en a)) =
           (if en then set (tracked_ids a) else set (tracked_ids a) - {k})"
proof (cases "map_of (clients a) k")
  case None
  then have "k \<notin> set (tracked_ids a)"
    by (simp add: tracked_ids_def map_of_keys)
  then show ?thesis
    using None assms by (simp add: toggleEndpoint_def keys_ok_def tracked_ids_def)
next
  case (Some c)
  show ?thesis
    using Some assms disconnect_and_delete_keys [OF assms, of k c]
    by (simp add: toggleEndpoint_def Let_def keys_ok_def tracked_ids_def)
qed

lemma updateEndpoint_keys:
  assumes "keys_ok a"
  shows "keys_ok (updateEndpoint sdk e a) \<and>
         set (tracked_ids (updateEndpoint sdk e a)) =
           (if isEnabled e then insert (ep_id e) (set (tracked_ids a))
            else set (tracked_ids a) - {ep_id e})"
  using removeEndpoint_keys [OF assms, of "ep_id e"]
    addEndpoint_keys [of "removeEndpoint (ep_id e) a" sdk e]
  by (auto simp: updateEndpoint_def Let_def)

lemma refreshEndpoint_keys:
  assumes "keys_ok a"
  shows "keys_ok (refreshEndpoint sdk k a) \<and>
         set (tracked_ids (refreshEndpoint sdk k a)) = set (tracked_ids a)"
proof (cases "map_of (clients a) k")
  case None
  then show ?thesis
    using assms by (simp add: refreshEndpoint_def)
next
  case (Some c)
  have c: "ep_id (config c) = k" "isEnabled (config c)"
    using map_of_list_all [OF _ Some, of "\<lambda>(k, c). ep_id (config c) = k \<and> isEnabled (config c)"]
      assms by (simp_all add: keys_ok_def)
  have k: "k \<in> set (tracked_ids a)"
    using Some by (simp add: tracked_iff)
  show ?thesis
    using Some c k disconnect_and_delete_keys [OF assms, of k c]
      addEndpoint_keys [of "disconnect_and_delete k c a" sdk "config c"]
    by (auto simp: refreshEndpoint_def)
qed

lemma sync_remove_loop:
  assumes "keys_ok a"
  shows "keys_ok (fold (\<lambda>k b. if k \<notin> incoming then removeEndpoint k b else b) ks a) \<and>
         set (tracked_ids (fold (\<lambda>k b. if k \<notin> incoming then removeEndpoint k b else b) ks a)) =
           set (tracked_ids a) - (set ks - incoming)"
  using assms
proof (induction ks arbitrary: a)
  case Nil
  then show ?case by simp
next
  case (Cons k ks)
  show ?case
  proof (cases "k \<in> incoming")
    case True
    then show ?thesis
      using Cons.IH [OF Cons.prems] by auto
  next
    case False
    then show ?thesis
      using Cons.IH [of "removeEndpoint k a"] removeEndpoint_keys [OF Cons.prems, of k]
      by auto
  qed
qed

lemma sync_add_loop:
  assumes "keys_ok a"
  shows "keys_ok (fold (\<lambda>ep b. if isEnabled ep
                 then (if map_of (clients b) (ep_id ep) \<noteq> None then b
                       else addEndpoint sdk ep b)
                 else b) eps a) \<and>
         set (tracked_ids (fold (\<lambda>ep b. if isEnabled ep
                 then (if map_of (clients b) (ep_id ep) \<noteq> None then b
                       else addEndpoint sdk ep b)
                 else b) eps a)) =
           set (tracked_ids a) \<union> set (map ep_id (filter isEnabled eps))"
  using assms
proof (induction eps arbitrary: a)
  case Nil
  then show ?case by simp
next
  case (Cons e eps)
  show ?case
  proof (cases "isEnabled e")
    case False
    then show ?thesis
      using Cons.IH [OF Cons.prems] by simp
  next
    case True
    show ?thesis
    proof (cases "map_of (clients a) (ep_id e)")
      case None
      then show ?thesis
        using True Cons.IH [of "addEndpoint sdk e a"] addEndpoint_keys [OF Cons.prems, of sdk e]
        by auto
    next
      case (Some c)
      then have "ep_id e \<in> set (tracked_ids a)"
        by (simp add: tracked_iff)
      then show ?thesis
        using True Some Cons.IH [OF Cons.prems] by auto
    qed
  qed
qed

lemma syncEndpoints_keys:
  assumes "keys_ok a"
  shows "keys_ok (syncEndpoints sdk eps a) \<and>
         set (tracked_ids (syncEndpoints sdk eps a)) =
           (set (tracked_ids a) \<inter> set (map ep_id eps)) \<union> set (map ep_id (filter isEnabled eps))"
proof -
  let ?a1 = "fold (\<lambda>k b. if k \<notin> set (map ep_id eps) then removeEndpoint k b else b)
               (map fst (clients a)) a"
  have a1: "keys_ok ?a1"
    "set (tracked_ids ?a1) = set (tracked_ids a) - (set (map fst (clients a)) - set (map ep_id eps))"
    using sync_remove_loop [OF assms, of "set (map ep_id eps)" "map fst (clients a)"] by simp_all
  have "set (tracked_ids ?a1) = set (tracked_ids a) \<inter> set (map ep_id eps)"
    using a1(2) by (auto simp: tracked_ids_def)
  then show ?thesis
    using sync_add_loop [OF a1(1), of sdk eps] by (simp add: syncEndpoints_def Let_def)
qed

lemma handle_keys:
  assumes "keys_ok a"
  shows "keys_ok (handle sdk ev a) \<and>
         set (tracked_ids (handle sdk ev a)) = tracked_step ev (set (tracked_ids a))"
  using syncEndpoints_keys [OF assms] addEndpoint_keys [OF assms] removeEndpoint_keys [OF assms]
    toggleEndpoint_keys [OF assms] updateEndpoint_keys [OF assms] refreshEndpoint_keys [OF assms]
  by (cases ev) (simp_all add: handle_def)

lemma handle_all_keys:
  assumes "keys_ok a"
  shows "keys_ok (handle_all sdk evs a) \<and>
         set (tracked_ids (handle_all sdk evs a)) = fold tracked_step evs (set (tracked_ids a))"
  using assms
proof (induction evs arbitrary: a)
  case Nil
  then show ?case by (simp add: handle_all_def)
next
  case (Cons ev evs)
  show ?case
    using Cons.IH [of "handle sdk ev a"] handle_keys [OF Cons.prems, of sdk ev]
    by (simp add: handle_all_def)
qed

lemma keys_ok_newAgent: "keys_ok (start newAgent)" "tracked_ids (start newAgent) = []"
  by (simp_all add: keys_ok_def newAgent_def start_def tracked_ids_def)

lemma tracked_step_enabled_only:
  "(case ev of Endpoints endpoints \<Rightarrow> list_all isEnabled endpoints | _ \<Rightarrow> True) \<Longrightarrow>
     tracked_step ev ids = expected_step ev ids"
proof (cases ev)
  case (Endpoints eps)
  assume "case ev of Endpoints endpoints \<Rightarrow> list_all isEnabled endpoints | _ \<Rightarrow> True"
  then have "filter isEnabled eps = eps"
    using Endpoints by (simp add: list_all_iff)
  then show ?thesis
    using Endpoints by auto
qed simp_all

lemma fold_tracked_step_enabled_only:
  "replaces_enabled_only evs \<Longrightarrow> fold tracked_step evs ids = fold expected_step evs ids"
  by (induction evs arbitrary: ids) (simp_all add: replaces_enabled_only_def tracked_step_enabled_only)

text \<open>
  From a started agent, for every sequence of events: no id is tracked twice, every
  tracked client is held under the id of its own enabled descriptor, and the tracked ids
  are what \<open>tracked_step\<close> gives. When no full replace carries a disabled descriptor,
  they are the ids of the specification's property.
\<close>

lemma tracked_ids_of_events:
  "distinct (tracked_ids (handle_all sdk evs (start newAgent))) \<and>
   keys_ok (handle_all sdk evs (start newAgent)) \<and>
   set (tracked_ids (handle_all sdk evs (start newAgent))) = fold tracked_step evs {} \<and>
   (replaces_enabled_only evs \<longrightarrow>
      set (tracked_ids (handle_all sdk evs (start newAgent))) = expected_ids evs)"
proof -
  note h = handle_all_keys [OF keys_ok_newAgent(1), of sdk evs]
  have "distinct (tracked_ids (handle_all sdk evs (start newAgent)))"
    using h by (simp add: keys_ok_def tracked_ids_def)
  moreover have "set (tracked_ids (handle_all sdk evs (start newAgent))) = fold tracked_step evs {}"
    using h by (simp add: keys_ok_newAgent(2))
  ultimately show ?thesis
    using h by (simp add: fold_tracked_step_enabled_only expected_ids_def)
qed


text \<open>
  C1, evaluated. The agent receives the endpoint list with endpoint \<open>a\<close> enabled, then
  the endpoint list with the same endpoint disabled. \<open>_syncEndpoints\<close> removes only the
  ids that are absent from the incoming list and looks only at the enabled descriptors
  after that, so \<open>a\<close> stays tracked, while no id is present and enabled in the most
  recent full replace.
\<close>

theorem full_replace_keeps_disabled:
  "tracked_ids
     (handle_all sdk_up
        [Endpoints [sse_endpoint], Endpoints [sse_endpoint\<lparr>isEnabled := False\<rparr>]]
        (start newAgent)) = [''a''] \<and>
   expected_ids [Endpoints [sse_endpoint], Endpoints [sse_endpoint\<lparr>isEnabled := False\<rparr>]] = {}"
  by (simp add: agent_defs tunnel_defs client_defs example_defs expected_ids_def Let_def)

section \<open>An endpoint removed while its connect is in flight\<close>

text \<open>
  The agent removes endpoint \<open>a\<close> while the connect of its client is in flight. The
  client is detached and reports disconnected; when its connect then fails, it reports
  error for the removed endpoint.
\<close>

lemma removed_while_connecting:
  "tracked_ids (removeEndpoint ''a'' agent_connecting) = [] \<and>
   sent (tunnel (removeEndpoint ''a'' agent_connecting)) =
     [StatusUpdate ''a'' Connecting None, StatusUpdate ''a'' Disconnected None] \<and>
   sent (tunnel (detachedTurn 0 (settle sdk_refused) (removeEndpoint ''a'' agent_connecting))) =
     [StatusUpdate ''a'' Connecting None, StatusUpdate ''a'' Disconnected None,
      StatusUpdate ''a'' Error (Some ''ECONNREFUSED'')]"
  by (simp add: agent_connecting_eq tracked_ids_def removeEndpoint_def disconnect_and_delete_def
      detachedTurn_def relay_def forward_def tunnel_defs client_defs example_defs Let_def)


section \<open>Routing of tool calls\<close>

lemma sent_emit: "socket t \<Longrightarrow> emit m t = t\<lparr>sent := sent t @ [m]\<rparr>"
  by (simp add: emit_def)

lemma relay_same: "callbacks c' = callbacks c \<Longrightarrow> relay c c' t = t"
  by (simp add: relay_def)

lemma relay_one:
  "callbacks c' = callbacks c @ [cb] \<Longrightarrow> relay c c' t = forward (ep_id (config c)) cb t"
  by (simp add: relay_def)

lemma forward_status:
  "forward i (StatusChanged st err) t = sendStatusUpdate i st err t"
  by (simp add: forward_def)

text \<open>
  C2. A tool-call request, with the tunnel's socket in place. For an untracked endpoint id
  nothing is called downstream and one error with the text "No local client for endpoint"
  and the id is sent under the request's call id. For a tracked client whose status is not
  connected nothing is called downstream and one error naming the status is sent: its text
  ends with "(status: disconnected)", "(status: connecting)" or "(status: error)", as the
  status is. For a connected client \<open>callTool\<close> is invoked, and its result, or the message
  of its failure, is sent under the call id. In every case exactly one message is sent.
\<close>

theorem tool_call_routing:
  assumes "socket (tunnel a)"
  shows "(map_of (clients a) (tc_endpointId p) = None \<longrightarrow>
            handleToolCall p answer a =
              ([], a\<lparr>tunnel := (tunnel a)\<lparr>sent := sent (tunnel a) @
                   [ToolError (tc_callId p)
                      (''No local client for endpoint '' @ tc_endpointId p)]\<rparr>\<rparr>)) \<and>
         (\<forall>c. map_of (clients a) (tc_endpointId p) = Some c \<and> status c \<noteq> Connected \<longrightarrow>
            handleToolCall p answer a =
              ([], a\<lparr>tunnel := (tunnel a)\<lparr>sent := sent (tunnel a) @
                   [ToolError (tc_callId p)
                      (''Endpoint '' @ tc_endpointId p @ '' is not connected (status: '' @
                       status_text (status c) @ '')'')]\<rparr>\<rparr>)) \<and>
         (\<forall>c. map_of (clients a) (tc_endpointId p) = Some c \<and> status c = Disconnected \<longrightarrow>
            handleToolCall p answer a =
              ([], a\<lparr>tunnel := (tunnel a)\<lparr>sent := sent (tunnel a) @
                   [ToolError (tc_callId p)
                      (''Endpoint '' @ tc_endpointId p @
                       '' is not connected (status: disconnected)'')]\<rparr>\<rparr>)) \<and>
         (\<forall>c. map_of (clients a) (tc_endpointId p) = Some c \<and> status c = Connecting \<longrightarrow>
            handleToolCall p answer a =
              ([], a\<lparr>tunnel := (tunnel a)\<lparr>sent := sent (tunnel a) @
                   [ToolError (tc_callId p)
                      (''Endpoint '' @ tc_endpointId p @
                       '' is not connected (status: connecting)'')]\<rparr>\<rparr>)) \<and>
         (\<forall>c. map_of (clients a) (tc_endpointId p) = Some c \<and> status c = Error \<longrightarrow>
            handleToolCall p answer a =
              ([], a\<lparr>tunnel := (tunnel a)\<lparr>sent := sent (tunnel a) @
                   [ToolError (tc_callId p)
                      (''Endpoint '' @ tc_endpointId p @
                       '' is not connected (status: error)'')]\<rparr>\<rparr>)) \<and>
         (\<forall>c. map_of (clients a) (tc_endpointId p) = Some c \<and> status c = Connected \<longrightarrow>
            handleToolCall p answer a =
              (fst (callTool c (tc_toolName p) (tc_args p) answer),
               a\<lparr>tunnel := (tunnel a)\<lparr>sent := sent (tunnel a) @
                   [case snd (callTool c (tc_toolName p) (tc_args p) answer) of
                      Inr result \<Rightarrow> ToolResult (tc_callId p) result
                    | Inl message \<Rightarrow> ToolError (tc_callId p) message]\<rparr>\<rparr>) \<and>
            (\<forall>cl. client c = Some cl \<longrightarrow>
               callTool c (tc_toolName p) (tc_args p) answer =
                 ([ClientCallTool cl (tc_toolName p) (tc_args p)], answer))) \<and>
         length (sent (tunnel (snd (handleToolCall p answer a)))) = length (sent (tunnel a)) + 1"
  using assms
  by (simp add: handleToolCall_def sendToolError_def sendToolResult_def sent_emit callTool_def
      status_text_def split: option.split sum.split prod.split)

theorem tool_call_routing_witness:
  "handleToolCall
     \<lparr>tc_callId = ''7'', tc_endpointId = ''zz'', tc_toolName = ''echo'', tc_args = JObject []\<rparr>
     (Inr (JString ''hi'')) agent_connected =
     ([], agent_connected\<lparr>tunnel := (tunnel agent_connected)\<lparr>sent :=
            sent (tunnel agent_connected) @
            [ToolError ''7'' ''No local client for endpoint zz'']\<rparr>\<rparr>) \<and>
   handleToolCall
     \<lparr>tc_callId = ''8'', tc_endpointId = ''a'', tc_toolName = ''echo'', tc_args = JObject []\<rparr>
     (Inr (JString ''hi'')) agent_connecting =
     ([], agent_connecting\<lparr>tunnel := (tunnel agent_connecting)\<lparr>sent :=
            sent (tunnel agent_connecting) @
            [ToolError ''8'' ''Endpoint a is not connected (status: connecting)'']\<rparr>\<rparr>) \<and>
   handleToolCall
     \<lparr>tc_callId = ''11'', tc_endpointId = ''a'', tc_toolName = ''echo'', tc_args = JObject []\<rparr>
     (Inr (JString ''hi'')) agent_failed =
     ([], agent_failed\<lparr>tunnel := (tunnel agent_failed)\<lparr>sent :=
            sent (tunnel agent_failed) @
            [ToolError ''11'' ''Endpoint a is not connected (status: error)'']\<rparr>\<rparr>) \<and>
   handleToolCall
     \<lparr>tc_callId = ''12'', tc_endpointId = ''a'', tc_toolName = ''echo'', tc_args = JObject []\<rparr>
     (Inr (JString ''hi'')) agent_stopping =
     ([], agent_stopping\<lparr>tunnel := (tunnel agent_stopping)\<lparr>sent :=
            sent (tunnel agent_stopping) @
            [ToolError ''12'' ''Endpoint a is not connected (status: disconnected)'']\<rparr>\<rparr>) \<and>
   handleToolCall
     \<lparr>tc_callId = ''9'', tc_endpointId = ''a'', tc_toolName = ''echo'', tc_args = JObject []\<rparr>
     (Inr (JString ''hi'')) agent_connected =
     ([ClientCallTool (Client (SSEClientTransport ''http://localhost:3001/sse'' []))
         ''echo'' (JObject [])],
      agent_connected\<lparr>tunnel := (tunnel agent_connected)\<lparr>sent :=
            sent (tunnel agent_connected) @ [ToolResult ''9'' (JString ''hi'')]\<rparr>\<rparr>) \<and>
   handleToolCall
     \<lparr>tc_callId = ''10'', tc_endpointId = ''a'', tc_toolName = ''echo'', tc_args = JObject []\<rparr>
     (Inl ''tool failed'') agent_connected =
     ([ClientCallTool (Client (SSEClientTransport ''http://localhost:3001/sse'' []))
         ''echo'' (JObject [])],
      agent_connected\<lparr>tunnel := (tunnel agent_connected)\<lparr>sent :=
            sent (tunnel agent_connected) @ [ToolError ''10'' ''tool failed'']\<rparr>\<rparr>)"
proof -
  let ?c = "connect_awaited sdk_up (newLocalClient sse_endpoint)"
  let ?k = "connect sdk_up (newLocalClient sse_endpoint)"
  let ?e = "settle sdk_refused ?k"
  let ?d = "disconnect_awaited ?c"
  have open1: "socket (tunnel agent_connected)" and open2: "socket (tunnel agent_connecting)"
    by (simp_all add: agent_connected_eq agent_connecting_eq)
  have none: "map_of (clients agent_connected) ''zz'' = None"
    and some: "map_of (clients agent_connected) ''a'' = Some ?c"
    and busy: "map_of (clients agent_connecting) ''a'' = Some ?k"
    by (simp_all add: agent_connected_eq agent_connecting_eq)
  have failed: "map_of (clients agent_failed) ''a'' = Some ?e"
    and stopping: "map_of (clients agent_stopping) ''a'' = Some ?d"
    by (simp_all add: agent_failed_def agent_stopping_def trackedTurn_def busy some update_conv')
  have open3: "socket (tunnel agent_failed)"
    by (simp add: agent_failed_def trackedTurn_def busy relay_def)
       (simp add: agent_connecting_eq forward_def tunnel_defs client_defs example_defs Let_def)
  have open4: "socket (tunnel agent_stopping)"
    by (simp add: agent_stopping_def trackedTurn_def some relay_def disconnect_awaited_eq)
       (simp add: agent_connected_eq forward_def tunnel_defs)
  have c: "status ?c = Connected"
    "client ?c = Some (Client (SSEClientTransport ''http://localhost:3001/sse'' []))"
    and k: "status ?k = Connecting"
    and e: "status ?e = Error"
    by (simp_all add: client_defs example_defs Let_def)
  have d: "status ?d = Disconnected"
    by (simp add: disconnect_awaited_eq)
  have call: "callTool ?c ''echo'' (JObject []) answer =
      ([ClientCallTool (Client (SSEClientTransport ''http://localhost:3001/sse'' []))
          ''echo'' (JObject [])], answer)" for answer
    by (simp add: callTool_def c)
  show ?thesis
    using tool_call_routing [OF open1, of
        "\<lparr>tc_callId = ''7'', tc_endpointId = ''zz'', tc_toolName = ''echo'', tc_args = JObject []\<rparr>"
        "Inr (JString ''hi'')"]
      tool_call_routing [OF open2, of
        "\<lparr>tc_callId = ''8'', tc_endpointId = ''a'', tc_toolName = ''echo'', tc_args = JObject []\<rparr>"
        "Inr (JString ''hi'')"]
      tool_call_routing [OF open3, of
        "\<lparr>tc_callId = ''11'', tc_endpointId = ''a'', tc_toolName = ''echo'', tc_args = JObject []\<rparr>"
        "Inr (JString ''hi'')"]
      tool_call_routing [OF open4, of
        "\<lparr>tc_callId = ''12'', tc_endpointId = ''a'', tc_toolName = ''echo'', tc_args = JObject []\<rparr>"
        "Inr (JString ''hi'')"]
      tool_call_routing [OF open1, of
        "\<lparr>tc_callId = ''9'', tc_endpointId = ''a'', tc_toolName = ''echo'', tc_args = JObject []\<rparr>"
        "Inr (JString ''hi'')"]
      tool_call_routing [OF open1, of
        "\<lparr>tc_callId = ''10'', tc_endpointId = ''a'', tc_toolName = ''echo'', tc_args = JObject []\<rparr>"
        "Inl ''tool failed''"]
    by (simp add: none some busy failed stopping c k e d call status_text_def)
qed

section \<open>Announcing tools\<close>

lemma map_trim_cong:
  assumes "map name ts = map name ts'" "map description ts = map description ts'"
    and "map inputSchema ts = map inputSchema ts'"
  shows "map trim ts = map trim ts'"
proof -
  have "length ts = length ts'"
    using assms(1) by (rule map_eq_imp_length_eq)
  then show ?thesis
    using assms by (induction ts ts' rule: list_induct2) (simp_all add: trim_def)
qed

text \<open>
  C9. \<open>announceTools\<close> sends, on the socket, one \<open>toolsAnnounce\<close> message with the endpoint
  id and the tools in order, each reduced to its name, description and input schema, and
  sends nothing without a socket. The message type has no other field, a tool's other
  fields do not reach it, and two tool lists that agree on the three fields are announced
  by the same message.
\<close>

theorem announceTools_trimmed:
  "(socket t \<longrightarrow>
      announceTools i ts t = t\<lparr>sent := sent t @ [ToolsAnnounce i (map trim ts)]\<rparr>) \<and>
   (\<not> socket t \<longrightarrow> announceTools i ts t = t) \<and>
   (\<forall>tl\<in>set ts.
      announced_name (trim tl) = name tl \<and>
      announced_description (trim tl) = description tl \<and>
      announced_inputSchema (trim tl) = inputSchema tl \<and>
      (\<forall>other. trim (tl\<lparr>otherFields := other\<rparr>) = trim tl)) \<and>
   (map name ts = map name ts' \<and> map description ts = map description ts' \<and>
    map inputSchema ts = map inputSchema ts' \<longrightarrow>
      announceTools i ts t = announceTools i ts' t)"
proof -
  have "map name ts = map name ts' \<and> map description ts = map description ts' \<and>
    map inputSchema ts = map inputSchema ts' \<longrightarrow>
      announceTools i ts t = announceTools i ts' t"
    using map_trim_cong [of ts ts'] by (simp add: announceTools_def)
  then show ?thesis
    by (simp add: announceTools_def emit_def trim_def)
qed

theorem announceTools_trimmed_witness:
  "announceTools ''a'' [echo_tool] \<lparr>socket = True, sent = []\<rparr> =
     \<lparr>socket = True,
      sent = [ToolsAnnounce ''a''
                [\<lparr>announced_name = ''echo'', announced_description = Some ''Echo the input'',
                  announced_inputSchema = JObject [(''type'', JString ''object'')]\<rparr>]]\<rparr> \<and>
   announceTools ''a'' [echo_tool] \<lparr>socket = False, sent = []\<rparr> = \<lparr>socket = False, sent = []\<rparr> \<and>
   announced_name (trim echo_tool) = ''echo'' \<and>
   trim (echo_tool\<lparr>otherFields := []\<rparr>) = trim echo_tool \<and>
   announceTools ''a'' [echo_tool\<lparr>otherFields := []\<rparr>] \<lparr>socket = True, sent = []\<rparr> =
     announceTools ''a'' [echo_tool] \<lparr>socket = True, sent = []\<rparr>"
proof -
  have s: "socket \<lparr>socket = True, sent = []\<rparr>" and n: "\<not> socket \<lparr>socket = False, sent = []\<rparr>"
    by simp_all
  have same: "map name [echo_tool] = map name [echo_tool\<lparr>otherFields := []\<rparr>] \<and>
      map description [echo_tool] = map description [echo_tool\<lparr>otherFields := []\<rparr>] \<and>
      map inputSchema [echo_tool] = map inputSchema [echo_tool\<lparr>otherFields := []\<rparr>]"
    by simp
  have mem: "echo_tool \<in> set [echo_tool]"
    by simp
  note th = announceTools_trimmed [of "\<lparr>socket = True, sent = []\<rparr>" "''a''" "[echo_tool]"
      "[echo_tool\<lparr>otherFields := []\<rparr>]"]
  note th' = announceTools_trimmed [of "\<lparr>socket = False, sent = []\<rparr>" "''a''" "[echo_tool]"
      "[echo_tool]"]
  have "announceTools ''a'' [echo_tool] \<lparr>socket = True, sent = []\<rparr> =
          \<lparr>socket = True, sent = []\<rparr>\<lparr>sent := sent \<lparr>socket = True, sent = []\<rparr> @
             [ToolsAnnounce ''a'' (map trim [echo_tool])]\<rparr>"
    using th [THEN conjunct1] s by (rule mp)
  moreover have "announceTools ''a'' [echo_tool] \<lparr>socket = False, sent = []\<rparr> =
          \<lparr>socket = False, sent = []\<rparr>"
    using th' [THEN conjunct2, THEN conjunct1] n by (rule mp)
  moreover have "announced_name (trim echo_tool) = name echo_tool \<and>
      announced_description (trim echo_tool) = description echo_tool \<and>
      announced_inputSchema (trim echo_tool) = inputSchema echo_tool \<and>
      (\<forall>other. trim (echo_tool\<lparr>otherFields := other\<rparr>) = trim echo_tool)"
    using th [THEN conjunct2, THEN conjunct2, THEN conjunct1] mem by (rule bspec)
  moreover have "announceTools ''a'' [echo_tool] \<lparr>socket = True, sent = []\<rparr> =
           announceTools ''a'' [echo_tool\<lparr>otherFields := []\<rparr>] \<lparr>socket = True, sent = []\<rparr>"
    using th [THEN conjunct2, THEN conjunct2, THEN conjunct2] same by (rule mp)
  ultimately show ?thesis
    by (simp add: trim_def echo_tool_def)
qed

section \<open>Toggling an endpoint\<close>

lemma callbacks_disconnect:
  "callbacks (disconnect c) =
     (if client c \<noteq> None then callbacks c
      else callbacks c @ [StatusChanged Disconnected None])"
  by (simp add: disconnect_eq)

lemma config_disconnect [simp]: "config (disconnect c) = config c"
  by (simp add: disconnect_eq)

lemma closeSettled_disconnect:
  assumes "client c \<noteq> None"
  shows "callbacks (closeSettled (disconnect c)) =
           callbacks (disconnect c) @ [StatusChanged Disconnected None]"
  using assms by (simp add: disconnect_eq closeSettled_def setStatus_def)

lemma toggle_disable_tracked:
  assumes "map_of (clients a) i = Some c"
  shows "toggleEndpoint i False a =
           a\<lparr>clients := AList.delete i (clients a),
             tunnel := sendStatusUpdate i Disconnected None (relay c (disconnect c) (tunnel a)),
             detached := detached a @ [disconnect c]\<rparr>"
  using assms by (simp add: toggleEndpoint_def disconnect_and_delete_def Let_def)

text \<open>
  C8, as the code has it, with the tunnel's socket in place. A disable toggle on a tracked
  id disconnects the client and drops the entry, and the status disconnected is sent for
  that id twice: once by the client's own \<open>disconnect()\<close> through its status callback (in
  the same turn when it holds no client handle, otherwise when the awaited \<open>close()\<close> has
  settled), and once by the toggle handler itself. On an untracked id a disable toggle
  changes nothing, and an enable toggle sends the status connecting for that id and
  changes nothing else: no client is created.
\<close>

theorem toggle_endpoint:
  assumes "socket (tunnel a)"
  shows "(map_of (clients a) i = Some c \<and> ep_id (config c) = i \<longrightarrow>
            map_of (clients (toggleEndpoint i False a)) i = None \<and>
            detached (toggleEndpoint i False a) = detached a @ [disconnect c] \<and>
            destroyed (disconnect c) \<and>
            (client c = None \<longrightarrow>
               sent (tunnel (toggleEndpoint i False a)) =
                 sent (tunnel a) @
                 [StatusUpdate i Disconnected None, StatusUpdate i Disconnected None]) \<and>
            (client c \<noteq> None \<longrightarrow>
               sent (tunnel (toggleEndpoint i False a)) =
                 sent (tunnel a) @ [StatusUpdate i Disconnected None] \<and>
               sent (tunnel (detachedTurn (length (detached a)) closeSettled
                               (toggleEndpoint i False a))) =
                 sent (tunnel a) @
                 [StatusUpdate i Disconnected None, StatusUpdate i Disconnected None])) \<and>
         (map_of (clients a) i = None \<longrightarrow>
            toggleEndpoint i False a = a \<and>
            toggleEndpoint i True a =
              a\<lparr>tunnel := (tunnel a)\<lparr>sent := sent (tunnel a) @
                   [StatusUpdate i Connecting None]\<rparr>\<rparr>)"
proof -
  have tracked: "map_of (clients a) i = Some c \<and> ep_id (config c) = i \<longrightarrow>
            map_of (clients (toggleEndpoint i False a)) i = None \<and>
            detached (toggleEndpoint i False a) = detached a @ [disconnect c] \<and>
            destroyed (disconnect c) \<and>
            (client c = None \<longrightarrow>
               sent (tunnel (toggleEndpoint i False a)) =
                 sent (tunnel a) @
                 [StatusUpdate i Disconnected None, StatusUpdate i Disconnected None]) \<and>
            (client c \<noteq> None \<longrightarrow>
               sent (tunnel (toggleEndpoint i False a)) =
                 sent (tunnel a) @ [StatusUpdate i Disconnected None] \<and>
               sent (tunnel (detachedTurn (length (detached a)) closeSettled
                               (toggleEndpoint i False a))) =
                 sent (tunnel a) @
                 [StatusUpdate i Disconnected None, StatusUpdate i Disconnected None])"
  proof
    assume h: "map_of (clients a) i = Some c \<and> ep_id (config c) = i"
    then have c: "map_of (clients a) i = Some c" and i: "ep_id (config c) = i"
      by simp_all
    note eq = toggle_disable_tracked [OF c]
    have gone: "map_of (clients (toggleEndpoint i False a)) i = None"
      by (simp add: eq delete_conv)
    have det: "detached (toggleEndpoint i False a) = detached a @ [disconnect c]"
      by (simp add: eq)
    have dead: "destroyed (disconnect c)"
      by (simp add: disconnect_clears_timer)
    have sync: "client c = None \<longrightarrow>
               sent (tunnel (toggleEndpoint i False a)) =
                 sent (tunnel a) @
                 [StatusUpdate i Disconnected None, StatusUpdate i Disconnected None]"
    proof
      assume none: "client c = None"
      have "relay c (disconnect c) (tunnel a) = sendStatusUpdate i Disconnected None (tunnel a)"
        using none i by (simp add: relay_one [of _ _ "StatusChanged Disconnected None"]
            callbacks_disconnect forward_status)
      then show "sent (tunnel (toggleEndpoint i False a)) =
                 sent (tunnel a) @
                 [StatusUpdate i Disconnected None, StatusUpdate i Disconnected None]"
        using assms by (simp add: eq sendStatusUpdate_def sent_emit)
    qed
    have async: "client c \<noteq> None \<longrightarrow>
               sent (tunnel (toggleEndpoint i False a)) =
                 sent (tunnel a) @ [StatusUpdate i Disconnected None] \<and>
               sent (tunnel (detachedTurn (length (detached a)) closeSettled
                               (toggleEndpoint i False a))) =
                 sent (tunnel a) @
                 [StatusUpdate i Disconnected None, StatusUpdate i Disconnected None]"
    proof
      assume some: "client c \<noteq> None"
      have r: "relay c (disconnect c) (tunnel a) = tunnel a"
        using some by (simp add: relay_same callbacks_disconnect)
      have first: "tunnel (toggleEndpoint i False a) =
                     (tunnel a)\<lparr>sent := sent (tunnel a) @ [StatusUpdate i Disconnected None]\<rparr>"
        using assms by (simp add: eq r sendStatusUpdate_def sent_emit)
      have later: "relay (disconnect c) (closeSettled (disconnect c)) t =
                     sendStatusUpdate i Disconnected None t" for t
        using i by (simp add: relay_one [of _ _ "StatusChanged Disconnected None"]
            closeSettled_disconnect [OF some] forward_status)
      have "tunnel (detachedTurn (length (detached a)) closeSettled (toggleEndpoint i False a)) =
              sendStatusUpdate i Disconnected None (tunnel (toggleEndpoint i False a))"
        by (simp add: detachedTurn_def det later)
      then show "sent (tunnel (toggleEndpoint i False a)) =
                 sent (tunnel a) @ [StatusUpdate i Disconnected None] \<and>
               sent (tunnel (detachedTurn (length (detached a)) closeSettled
                               (toggleEndpoint i False a))) =
                 sent (tunnel a) @
                 [StatusUpdate i Disconnected None, StatusUpdate i Disconnected None]"
        using assms by (simp add: first sendStatusUpdate_def sent_emit)
    qed
    from gone det dead sync async
    show "map_of (clients (toggleEndpoint i False a)) i = None \<and>
            detached (toggleEndpoint i False a) = detached a @ [disconnect c] \<and>
            destroyed (disconnect c) \<and>
            (client c = None \<longrightarrow>
               sent (tunnel (toggleEndpoint i False a)) =
                 sent (tunnel a) @
                 [StatusUpdate i Disconnected None, StatusUpdate i Disconnected None]) \<and>
            (client c \<noteq> None \<longrightarrow>
               sent (tunnel (toggleEndpoint i False a)) =
                 sent (tunnel a) @ [StatusUpdate i Disconnected None] \<and>
               sent (tunnel (detachedTurn (length (detached a)) closeSettled
                               (toggleEndpoint i False a))) =
                 sent (tunnel a) @
                 [StatusUpdate i Disconnected None, StatusUpdate i Disconnected None])"
      by (intro conjI)
  qed
  have untracked: "map_of (clients a) i = None \<longrightarrow>
            toggleEndpoint i False a = a \<and>
            toggleEndpoint i True a =
              a\<lparr>tunnel := (tunnel a)\<lparr>sent := sent (tunnel a) @
                   [StatusUpdate i Connecting None]\<rparr>\<rparr>"
    using assms by (simp add: toggleEndpoint_def sendStatusUpdate_def sent_emit)
  from tracked untracked show ?thesis
    by (rule conjI)
qed

theorem toggle_endpoint_witness:
  "sent (tunnel (detachedTurn 0 closeSettled (toggleEndpoint ''a'' False agent_connected))) =
     sent (tunnel agent_connected) @
     [StatusUpdate ''a'' Disconnected None, StatusUpdate ''a'' Disconnected None] \<and>
   sent (tunnel (toggleEndpoint ''a'' False agent_connecting)) =
     sent (tunnel agent_connecting) @
     [StatusUpdate ''a'' Disconnected None, StatusUpdate ''a'' Disconnected None] \<and>
   tracked_ids (toggleEndpoint ''a'' False agent_connected) = [] \<and>
   toggleEndpoint ''b'' False agent_connected = agent_connected \<and>
   toggleEndpoint ''b'' True agent_connected =
     agent_connected\<lparr>tunnel := (tunnel agent_connected)\<lparr>sent :=
        sent (tunnel agent_connected) @ [StatusUpdate ''b'' Connecting None]\<rparr>\<rparr>"
proof -
  let ?c = "connect_awaited sdk_up (newLocalClient sse_endpoint)"
  let ?k = "connect sdk_up (newLocalClient sse_endpoint)"
  have s: "socket (tunnel agent_connected)" and s': "socket (tunnel agent_connecting)"
    by (simp_all add: agent_connected_eq agent_connecting_eq)
  have a: "map_of (clients agent_connected) ''a'' = Some ?c"
    and b: "map_of (clients agent_connected) ''b'' = None"
    and d: "length (detached agent_connected) = 0"
    and a': "map_of (clients agent_connecting) ''a'' = Some ?k"
    by (simp_all add: agent_connected_eq agent_connecting_eq)
  have c: "ep_id (config ?c) = ''a''" "client ?c \<noteq> None"
    and k: "ep_id (config ?k) = ''a''" "client ?k = None"
    by (simp_all add: client_defs example_defs Let_def)
  note tracked = toggle_endpoint [OF s, of "''a''" ?c, THEN conjunct1, THEN mp, OF conjI [OF a c(1)]]
  note pending =
    tracked [THEN conjunct2, THEN conjunct2, THEN conjunct2, THEN conjunct2, THEN mp, OF c(2)]
  note busy = toggle_endpoint [OF s', of "''a''" ?k, THEN conjunct1, THEN mp, OF conjI [OF a' k(1)]]
  note at_once =
    busy [THEN conjunct2, THEN conjunct2, THEN conjunct2, THEN conjunct1, THEN mp, OF k(2)]
  note untracked = toggle_endpoint [OF s, of "''b''" ?c, THEN conjunct2, THEN mp, OF b]
  have "sent (tunnel (detachedTurn (length (detached agent_connected)) closeSettled
                        (toggleEndpoint ''a'' False agent_connected))) =
          sent (tunnel agent_connected) @
          [StatusUpdate ''a'' Disconnected None, StatusUpdate ''a'' Disconnected None]"
    using pending by (rule conjunct2)
  moreover note at_once
  moreover note untracked
  moreover have "tracked_ids (toggleEndpoint ''a'' False agent_connected) = []"
    by (simp add: toggle_disable_tracked [OF a] tracked_ids_def) (simp add: agent_connected_eq)
  ultimately show ?thesis
    by (simp only: d simp_thms)
qed

text \<open>
  C8 as stated fails: a disable toggle on the tracked endpoint \<open>a\<close> sends two status
  updates with status disconnected for \<open>a\<close>, both while its connect is in flight and
  when it is connected.
\<close>

theorem toggle_disable_counterexample:
  "tracked_ids agent_connecting = [''a''] \<and>
   sent (tunnel agent_connecting) = [StatusUpdate ''a'' Connecting None] \<and>
   sent (tunnel (toggleEndpoint ''a'' False agent_connecting)) =
     [StatusUpdate ''a'' Connecting None,
      StatusUpdate ''a'' Disconnected None, StatusUpdate ''a'' Disconnected None] \<and>
   sent (tunnel agent_connected) =
     [StatusUpdate ''a'' Connecting None, StatusUpdate ''a'' Connected None,
      ToolsAnnounce ''a'' [trim echo_tool]] \<and>
   sent (tunnel (detachedTurn 0 closeSettled (toggleEndpoint ''a'' False agent_connected))) =
     [StatusUpdate ''a'' Connecting None, StatusUpdate ''a'' Connected None,
      ToolsAnnounce ''a'' [trim echo_tool],
      StatusUpdate ''a'' Disconnected None, StatusUpdate ''a'' Disconnected None]"
  by (simp add: agent_connecting_eq agent_connected_eq tracked_ids_def toggleEndpoint_def
      disconnect_and_delete_def detachedTurn_def relay_def forward_def tunnel_defs
      client_defs example_defs Let_def)

section \<open>Disconnecting and stopping twice\<close>

lemma filter_delete:
  "filter (\<lambda>kv. fst kv \<notin> ks) (AList.delete k al) =
     filter (\<lambda>kv. fst kv \<notin> insert k ks) al"
  by (induction al) auto

lemma stop_loop_clients:
  "clients (fold (\<lambda>(k, c) b.
                    b\<lparr>clients := AList.delete k (clients b),
                      tunnel := relay c (disconnect_awaited c) (tunnel b),
                      detached := detached b @ [disconnect_awaited c]\<rparr>) xs a) =
     filter (\<lambda>kv. fst kv \<notin> fst ` set xs) (clients a)"
proof (induction xs arbitrary: a)
  case Nil
  then show ?case by simp
next
  case (Cons x xs)
  obtain k c where x: "x = (k, c)"
    by (cases x)
  show ?case
    by (simp add: x Cons.IH filter_delete)
qed

lemma clients_stop [simp]: "clients (stop a) = []"
proof -
  have "filter (\<lambda>kv. fst kv \<notin> fst ` set (clients a)) (clients a) = []"
    by (simp add: filter_empty_conv)
  then show ?thesis
    by (simp add: stop_def Let_def stop_loop_clients)
qed

lemma stop_twice: "stop (stop a) = stop a"
proof -
  have "stop (stop a) = (stop a)\<lparr>tunnel := tunnel_disconnect (tunnel (stop a))\<rparr>"
    by (simp add: stop_def [of "stop a"] Let_def)
  also have "tunnel_disconnect (tunnel (stop a)) = tunnel (stop a)"
    by (simp add: stop_def [of a] Let_def tunnel_disconnect_def)
  finally show ?thesis
    by simp
qed

text \<open>
  C7, as the code has it. A second \<open>disconnect()\<close> on a client changes none of its
  fields and throws nothing, but \<open>_setStatus\<close> invokes the status callback once more
  with disconnected. A second \<open>stop()\<close> of the agent changes nothing and sends nothing:
  the map is already empty and the tunnel has no socket.
\<close>

theorem disconnect_and_stop_twice:
  "disconnect_awaited (disconnect_awaited c) =
     (disconnect_awaited c)
       \<lparr>callbacks := callbacks (disconnect_awaited c) @ [StatusChanged Disconnected None]\<rparr> \<and>
   stop (stop a) = stop a"
  by (simp add: disconnect_awaited_twice stop_twice)

text \<open>
  C7 as stated fails: on a connected client the first \<open>disconnect()\<close> invokes the status
  callback with disconnected, and the second invokes it again.
\<close>

theorem disconnect_twice_counterexample:
  "callbacks (disconnect_awaited (connect_awaited sdk_up (newLocalClient sse_endpoint))) =
     [StatusChanged Connecting None, StatusChanged Connected None, ToolsChanged [echo_tool],
      StatusChanged Disconnected None] \<and>
   callbacks (disconnect_awaited
                (disconnect_awaited (connect_awaited sdk_up (newLocalClient sse_endpoint)))) =
     [StatusChanged Connecting None, StatusChanged Connected None, ToolsChanged [echo_tool],
      StatusChanged Disconnected None, StatusChanged Disconnected None]"
  by (simp add: disconnect_awaited_eq) (simp add: client_defs sse_endpoint_def sdk_up_def Let_def)

end
